theory Spec2Isabelle
  imports Complex_Main
begin

section \<open>Conventions of the embedding\<close>

text \<open>
  The repository is a PyTorch/DGL image-captioning model: \<^verbatim>\<open>utils.py\<close> builds one
  scene graph per sample, \<^verbatim>\<open>models.py\<close> holds the attention module, the graph
  attention layer \<^verbatim>\<open>ContextGAT\<close> and the cascade decoder.

  \<^item> A tensor is a nested list, outermost dimension first: a vector is a \<open>real list\<close>,
    a matrix a list of rows, a batch a list of matrices. Boolean masks are \<open>bool list\<close>s.
    The rows of a tensor have one length; where the program compares the shapes of two
    tensors the model does, and a theorem that needs the rows of an input to agree
    says so.
  \<^item> A floating-point number is a \<open>real\<close>. The reals have no NaN and no infinity:
    where torch would compute one into a tensor of reals (a mean over no rows, a
    division by a zero count, a softmax over scores that are all \<open>-inf\<close>) the model
    stops with the result \<open>Inl NotANumber\<close>. This is the one outcome of the model that
    is not a raise of the program; every other \<open>Inl\<close> is an exception.
  \<^item> The features of a graph are \<open>float\<close>s, a real or NaN: the graph builder stores
    the mean over no relation, which is NaN, as an edge feature, and returns the graph.
    The layers of the decoder are functions on reals, so a graph is read as a graph of
    reals where it enters the graph attention layer, and a NaN in it ends the run of
    the model there with \<open>Inl NotANumber\<close>.
  \<^item> The learned layers of torch (\<^verbatim>\<open>nn.Linear\<close>, \<^verbatim>\<open>nn.LSTMCell\<close>,
    \<^verbatim>\<open>nn.Embedding\<close>) are parameters: functions on rows, arbitrary in every theorem.
  \<^item> The sum of a row that the graph attention layer tests against zero
    (\<^verbatim>\<open>io.sum(dim=-1)\<close>) is a parameter too: torch adds the 32-bit floats of the row
    with rounding, so its result is not the sum of the reals (the entries
    \<open>2^24, 1, -2^24\<close> add up to \<open>0\<close> in 32-bit floats). The examples instantiate it
    with the sum of the reals on rows of small integers, where the two agree.
  \<^item> Random draws are an explicit input: a family of uniform numbers in \<open>[0, 1)\<close>
    indexed by a path of naturals. A Bernoulli draw with probability \<open>p\<close> is
    \<open>u < p\<close>.
  \<^item> DGL's message-passing engine (\<^verbatim>\<open>update_all\<close> run on the module's send and
    reduce functions) is a parameter as well.
\<close>

datatype error =
    AssertionError | ValueError | IndexError | KeyError | TypeError | NameError
  | RuntimeError | DGLError | NotANumber

definition ebind :: "error + 'a \<Rightarrow> ('a \<Rightarrow> error + 'b) \<Rightarrow> error + 'b" where
  "ebind m f = (case m of Inl e \<Rightarrow> Inl e | Inr x \<Rightarrow> f x)"

type_synonym vec = "real list"
type_synonym mat = "vec list"
type_synonym uniforms = "nat list \<Rightarrow> real"

text \<open>A list of results that all succeeded, or the first error.\<close>

fun sequence :: "(error + 'a) list \<Rightarrow> error + 'a list" where
  "sequence [] = Inr []"
| "sequence (m # ms) =
     (case m of Inl e \<Rightarrow> Inl e
      | Inr x \<Rightarrow> (case sequence ms of Inl e \<Rightarrow> Inl e | Inr xs \<Rightarrow> Inr (x # xs)))"

text \<open>
  The entries of a graph feature. \<open>floats\<close> reads a tensor of reals as a tensor of
  floats; \<open>reals\<close> reads a tensor of floats without NaN as a tensor of reals.
\<close>

datatype float = Value real | NaN

type_synonym fmat = "float list list"

definition floats :: "mat \<Rightarrow> fmat" where
  "floats m = map (map Value) m"

fun real_of :: "float \<Rightarrow> error + real" where
  "real_of (Value v) = Inr v"
| "real_of NaN = Inl NotANumber"

definition reals :: "fmat \<Rightarrow> error + mat" where
  "reals m = sequence (map (\<lambda>row. sequence (map real_of row)) m)"

section \<open>Tensor operations used by the repository\<close>

text \<open>\<^verbatim>\<open>mask.sum()\<close> of a boolean mask: the number of true entries.\<close>

definition count_true :: "bool list \<Rightarrow> nat" where
  "count_true m = length (filter (\<lambda>b. b) m)"

text \<open>
  \<^verbatim>\<open>x[mask]\<close>: the rows of \<open>x\<close> at which the mask is true, in order. The mask must
  have one entry per row.
\<close>

definition bool_index :: "'a list \<Rightarrow> bool list \<Rightarrow> error + 'a list" where
  "bool_index xs m =
     (if length m = length xs then Inr (map fst (filter snd (zip xs m))) else Inl IndexError)"

text \<open>
  \<^verbatim>\<open>pairs[b][cpu_mask, 0]\<close> and \<^verbatim>\<open>pairs[b][cpu_mask, 1]\<close>, where \<^verbatim>\<open>pairs\<close> is a numpy
  array and \<^verbatim>\<open>cpu_mask\<close> a torch tensor. numpy first asks an index that is not an array
  for an integer, and a torch tensor of exactly one element answers, \<open>True\<close> as 1 and
  \<open>False\<close> as 0. So a mask over a single relation slot is read as the integer index 1
  or 0: it selects that row of \<^verbatim>\<open>pairs[b]\<close> (numpy raises when there is no such row),
  and the result is one index pair, which \<^verbatim>\<open>add_edges\<close> takes as one edge. A mask of any
  other length is read as a boolean mask.
\<close>

definition numpy_index :: "'a list \<Rightarrow> bool list \<Rightarrow> error + 'a list" where
  "numpy_index xs m =
     (if length m = 1
      then (let i = (if hd m then 1 else 0)
            in if i < length xs then Inr [xs ! i] else Inl IndexError)
      else bool_index xs m)"

text \<open>
  \<^verbatim>\<open>x[mask] = vals\<close>: the rows of \<open>x\<close> at which the mask is true are replaced by the
  rows of \<open>vals\<close>, in order; a single row is broadcast; any other row count is a shape
  mismatch.
\<close>

fun put_rows :: "'a list \<Rightarrow> bool list \<Rightarrow> 'a list \<Rightarrow> 'a list" where
  "put_rows (x # xs) (b # bs) vs =
     (if b then (case vs of [] \<Rightarrow> x # put_rows xs bs [] | v # vs' \<Rightarrow> v # put_rows xs bs vs')
      else x # put_rows xs bs vs)"
| "put_rows xs bs vs = xs"

definition bool_index_put :: "'a list \<Rightarrow> bool list \<Rightarrow> 'a list \<Rightarrow> error + 'a list" where
  "bool_index_put xs m vals =
     (if length m \<noteq> length xs then Inl IndexError
      else if length vals = count_true m then Inr (put_rows xs m vals)
      else if length vals = 1 then Inr (put_rows xs m (replicate (count_true m) (hd vals)))
      else Inl RuntimeError)"

text \<open>\<^verbatim>\<open>x[i] = v\<close> on one dimension.\<close>

definition set_item :: "'a list \<Rightarrow> nat \<Rightarrow> 'a \<Rightarrow> error + 'a list" where
  "set_item xs i v = (if i < length xs then Inr (xs[i := v]) else Inl IndexError)"

text \<open>
  \<^verbatim>\<open>x[ind]\<close> with a list of indices (\<^verbatim>\<open>image_features[sort_ind]\<close>).
\<close>

definition index_select :: "'a list \<Rightarrow> nat list \<Rightarrow> error + 'a list" where
  "index_select xs ind =
     (if list_all (\<lambda>i. i < length xs) ind then Inr (map (\<lambda>i. xs ! i) ind) else Inl IndexError)"

definition ncols :: "'a list list \<Rightarrow> nat" where
  "ncols m = (case m of [] \<Rightarrow> 0 | row # _ \<Rightarrow> length row)"

text \<open>\<^verbatim>\<open>m.sum(dim=0)\<close> and \<^verbatim>\<open>m.mean(0)\<close> of a matrix: column sums and column means.\<close>

definition sum0 :: "mat \<Rightarrow> vec" where
  "sum0 m = map (\<lambda>j. sum_list (map (\<lambda>row. row ! j) m)) [0..<ncols m]"

definition mean0 :: "mat \<Rightarrow> error + vec" where
  "mean0 m = (if m = [] then Inl NotANumber else Inr (map (\<lambda>s. s / real (length m)) (sum0 m)))"

text \<open>
  \<^verbatim>\<open>m.mean(0)\<close> in the graph builder, whose result goes into a graph: the mean of a
  matrix without rows is a row of NaN. A nested list without rows has lost its width,
  so the width \<open>w\<close> of that row is taken from the tensor the rows were selected from.
\<close>

definition nan_mean0 :: "nat \<Rightarrow> mat \<Rightarrow> float list" where
  "nan_mean0 w m = (case mean0 m of Inl e \<Rightarrow> replicate w NaN | Inr v \<Rightarrow> map Value v)"

text \<open>
  \<^verbatim>\<open>v.expand(n, 512)\<close> of a vector: \<open>n\<close> copies of it as rows; the vector must have
  the width asked for (a one-element vector would be broadcast).
\<close>

definition expand :: "'a list \<Rightarrow> nat \<Rightarrow> nat \<Rightarrow> error + 'a list list" where
  "expand v n w =
     (if length v = w then Inr (replicate n v)
      else if length v = 1 then Inr (replicate n (replicate w (hd v)))
      else Inl RuntimeError)"

text \<open>\<^verbatim>\<open>torch.cat((a, b), 0)\<close> of two matrices: the widths must agree.\<close>

definition cat0 :: "'a list list \<Rightarrow> 'a list list \<Rightarrow> error + 'a list list" where
  "cat0 a b = (if a \<noteq> [] \<and> b \<noteq> [] \<and> ncols a \<noteq> ncols b then Inl RuntimeError else Inr (a @ b))"

text \<open>\<^verbatim>\<open>torch.bernoulli(p)\<close> on \<open>n\<close> entries of probability \<open>p\<close>, from uniform draws.\<close>

definition bernoulli :: "(nat \<Rightarrow> real) \<Rightarrow> nat \<Rightarrow> real \<Rightarrow> bool list" where
  "bernoulli u n p = map (\<lambda>i. u i < p) [0..<n]"

section \<open>The DGL graph\<close>

text \<open>
  A \<^verbatim>\<open>dgl.DGLGraph\<close>: the node count, the edges in the order they were added, the
  node and edge feature dictionaries, and the node and edge counts of each member of
  a batched graph (of the graph itself when it is not batched). The type of the
  feature entries is left open: the graphs of the builder hold \<open>float\<close>s, the graphs
  inside the graph attention layer reals. The operations below are DGL's, as far as
  the repository calls them: nodes are added to a graph without features, and an edge
  names existing nodes. (Edges that name a node the graph does not have are refused
  here as \<open>DGLError\<close>.)
\<close>

record 'a dgl_graph =
  num_nodes :: nat
  edge_list :: "(nat \<times> nat) list"
  ndata :: "string \<rightharpoonup> 'a list list"
  edata :: "string \<rightharpoonup> 'a list list"
  batch_num_nodes :: "nat list"
  batch_num_edges :: "nat list"

definition DGLGraph :: "'a dgl_graph" where
  "DGLGraph = \<lparr>num_nodes = 0, edge_list = [], ndata = Map.empty, edata = Map.empty,
     batch_num_nodes = [0], batch_num_edges = [0]\<rparr>"

definition number_of_edges :: "'a dgl_graph \<Rightarrow> nat" where
  "number_of_edges g = length (edge_list g)"

definition add_nodes :: "nat \<Rightarrow> 'a dgl_graph \<Rightarrow> 'a dgl_graph" where
  "add_nodes n g = g\<lparr>num_nodes := num_nodes g + n, batch_num_nodes := [num_nodes g + n]\<rparr>"

definition set_ndata :: "string \<Rightarrow> 'a list list \<Rightarrow> 'a dgl_graph \<Rightarrow> error + 'a dgl_graph" where
  "set_ndata k v g =
     (if length v = num_nodes g then Inr (g\<lparr>ndata := (ndata g)(k \<mapsto> v)\<rparr>) else Inl DGLError)"

definition set_edata :: "string \<Rightarrow> 'a list list \<Rightarrow> 'a dgl_graph \<Rightarrow> error + 'a dgl_graph" where
  "set_edata k v g =
     (if length v = number_of_edges g then Inr (g\<lparr>edata := (edata g)(k \<mapsto> v)\<rparr>)
      else Inl DGLError)"

definition valid_node :: "'a dgl_graph \<Rightarrow> int \<Rightarrow> bool" where
  "valid_node g i = (0 \<le> i \<and> i < int (num_nodes g))"

definition add_edges :: "int list \<Rightarrow> int list \<Rightarrow> 'a dgl_graph \<Rightarrow> error + 'a dgl_graph" where
  "add_edges us vs g =
     (if length us \<noteq> length vs then Inl DGLError
      else if list_all (valid_node g) us \<and> list_all (valid_node g) vs
      then Inr (g\<lparr>edge_list := edge_list g @ zip (map nat us) (map nat vs),
                  batch_num_edges := [number_of_edges g + length us]\<rparr>)
      else Inl DGLError)"

text \<open>
  \<^verbatim>\<open>dgl.edge_subgraph(g, eids, preserve_nodes=True)\<close>: the edges kept, every node
  kept. \<^verbatim>\<open>dgl.node_subgraph(g, nids)\<close>: the nodes kept are renumbered in order, and
  an edge survives when both its ends do. The selection is given as a mask.
\<close>

definition select :: "'a list \<Rightarrow> bool list \<Rightarrow> 'a list" where
  "select xs keep = map fst (filter snd (zip xs keep))"

definition edge_subgraph :: "'a dgl_graph \<Rightarrow> bool list \<Rightarrow> 'a dgl_graph" where
  "edge_subgraph g keep =
     g\<lparr>edge_list := select (edge_list g) keep,
       edata := (\<lambda>k. map_option (\<lambda>m. select m keep) (edata g k)),
       batch_num_edges := [count_true (take (number_of_edges g) keep)]\<rparr>"

definition new_id :: "bool list \<Rightarrow> nat \<Rightarrow> nat" where
  "new_id keep i = count_true (take i keep)"

definition node_subgraph :: "'a dgl_graph \<Rightarrow> bool list \<Rightarrow> 'a dgl_graph" where
  "node_subgraph g keep =
     (let ekeep = map (\<lambda>(u, v). keep ! u \<and> keep ! v) (edge_list g) in
      \<lparr>num_nodes = count_true keep,
       edge_list = map (\<lambda>(u, v). (new_id keep u, new_id keep v)) (select (edge_list g) ekeep),
       ndata = (\<lambda>k. map_option (\<lambda>m. select m keep) (ndata g k)),
       edata = (\<lambda>k. map_option (\<lambda>m. select m ekeep) (edata g k)),
       batch_num_nodes = [count_true keep],
       batch_num_edges = [count_true ekeep]\<rparr>)"

text \<open>
  \<^verbatim>\<open>dgl.batch(gs)\<close>: the disjoint union, node ids shifted by the node counts of the
  graphs before; a feature is the concatenation of the members' features. An empty
  list is refused.
\<close>

fun shift_edges :: "nat \<Rightarrow> 'a dgl_graph list \<Rightarrow> (nat \<times> nat) list" where
  "shift_edges off [] = []"
| "shift_edges off (g # gs) =
     map (\<lambda>(u, v). (u + off, v + off)) (edge_list g) @ shift_edges (off + num_nodes g) gs"

definition cat_feature :: "('a dgl_graph \<Rightarrow> string \<rightharpoonup> 'a list list) \<Rightarrow> 'a dgl_graph list \<Rightarrow> string \<rightharpoonup> 'a list list" where
  "cat_feature field gs k =
     (if list_all (\<lambda>g. field g k \<noteq> None) gs then Some (concat (map (\<lambda>g. the (field g k)) gs))
      else None)"

definition dgl_batch :: "'a dgl_graph list \<Rightarrow> error + 'a dgl_graph" where
  "dgl_batch gs =
     (if gs = [] then Inl DGLError
      else Inr \<lparr>num_nodes = sum_list (map num_nodes gs),
                edge_list = shift_edges 0 gs,
                ndata = cat_feature ndata gs,
                edata = cat_feature edata gs,
                batch_num_nodes = concat (map batch_num_nodes gs),
                batch_num_edges = concat (map batch_num_edges gs)\<rparr>)"

section \<open>The graph builder (\<^verbatim>\<open>utils.py\<close>)\<close>

text \<open>
  The block every branch of \<^verbatim>\<open>create_batched_graphs_augmented\<close> repeats, and the body of
  \<^verbatim>\<open>create_batched_graphs\<close>:
  \<^verbatim>\<open>
  graph = dgl.DGLGraph()
  graph.add_nodes(num=om[b].sum().item())
  graph.ndata['F_n'] = o[b, om[b]]
  cpu_mask = rm[b]
  graph.add_edges(pairs[b][cpu_mask, 0], pairs[b][cpu_mask, 1])
  graph.edata['F_e'] = r[b, rm[b]]
  \<close>
  \<^verbatim>\<open>o\<close> and \<^verbatim>\<open>r\<close> are torch tensors, which a boolean tensor indexes as a mask
  whatever its length; \<^verbatim>\<open>pairs\<close> is the numpy array of \<^verbatim>\<open>pairs.detach().numpy()\<close>.
\<close>

definition build_graph ::
  "mat \<Rightarrow> bool list \<Rightarrow> mat \<Rightarrow> bool list \<Rightarrow> (int \<times> int) list \<Rightarrow> error + float dgl_graph" where
  "build_graph o_b om_b r_b rm_b pairs_b =
     ebind (bool_index o_b om_b) (\<lambda>F_n.
     ebind (set_ndata ''F_n'' (floats F_n) (add_nodes (count_true om_b) DGLGraph)) (\<lambda>g1.
     ebind (numpy_index pairs_b rm_b) (\<lambda>ps.
     ebind (add_edges (map fst ps) (map snd ps) g1) (\<lambda>g2.
     ebind (bool_index r_b rm_b) (\<lambda>F_e.
     set_edata ''F_e'' (floats F_e) g2)))))"

text \<open>
  \<^verbatim>\<open>drop_edge\<close>, \<^verbatim>\<open>drop_node\<close>, \<^verbatim>\<open>drop_feat\<close>: one Bernoulli draw per edge, node or
  feature channel. An edge or node is kept with probability \<open>1 - drop_prob\<close>; a channel
  is zeroed with probability \<open>drop_prob\<close>.
\<close>

definition drop_edge :: "(nat \<Rightarrow> real) \<Rightarrow> float dgl_graph \<Rightarrow> real \<Rightarrow> float dgl_graph" where
  "drop_edge u graph drop_prob =
     (let E = number_of_edges graph;
          masks = bernoulli u E (1 - drop_prob)
      in edge_subgraph graph masks)"

definition drop_node :: "(nat \<Rightarrow> real) \<Rightarrow> float dgl_graph \<Rightarrow> real \<Rightarrow> float dgl_graph" where
  "drop_node u graph drop_prob =
     (let N = num_nodes graph;
          masks = bernoulli u N (1 - drop_prob)
      in node_subgraph graph masks)"

definition drop_feat :: "(nat \<Rightarrow> real) \<Rightarrow> mat \<Rightarrow> real \<Rightarrow> mat" where
  "drop_feat u x drop_prob =
     (let D = ncols x;
          masks = bernoulli u D drop_prob
      in map (\<lambda>row. map (\<lambda>(v, m). if m then 0 else v) (zip row masks)) x)"

text \<open>
  The loop bodies of the six branches, for one sample \<open>b\<close> and one beam \<open>k\<close>. Each
  returns the graph and the sample's rows of \<open>o\<close> and \<open>om\<close>, which branches 4 and 5
  overwrite in place. \<open>u c\<close> is the family of draws of the \<open>c\<close>-th random call.

  In branch 5, \<^verbatim>\<open>graph.add_edges(src, global_nodes)\<close> pairs every node of the list
  \<open>src\<close> with the one node \<open>global_nodes\<close>. The two means of the branch are taken over
  the masked-in rows, of which there may be none: the mean node feature is written
  into the graph and, by \<^verbatim>\<open>o[b, om[b]] = F_n\<close>, into the tensor \<open>o\<close> of reals, where
  a NaN ends the run; the mean relation feature is written into the graph alone.
\<close>

definition identical_body ::
  "mat \<Rightarrow> bool list \<Rightarrow> mat \<Rightarrow> bool list \<Rightarrow> (int \<times> int) list
     \<Rightarrow> error + float dgl_graph \<times> mat \<times> bool list" where
  "identical_body o_b om_b r_b rm_b pairs_b =
     ebind (build_graph o_b om_b r_b rm_b pairs_b) (\<lambda>graph. Inr (graph, o_b, om_b))"

definition node_drop_body ::
  "real \<Rightarrow> (nat \<Rightarrow> nat \<Rightarrow> real) \<Rightarrow> mat \<Rightarrow> bool list \<Rightarrow> mat \<Rightarrow> bool list \<Rightarrow> (int \<times> int) list
     \<Rightarrow> error + float dgl_graph \<times> mat \<times> bool list" where
  "node_drop_body edge_drop_prob u o_b om_b r_b rm_b pairs_b =
     ebind (build_graph o_b om_b r_b rm_b pairs_b) (\<lambda>graph.
       Inr (drop_edge (u 0) graph edge_drop_prob, o_b, om_b))"

definition sub_graph_body ::
  "real \<Rightarrow> real \<Rightarrow> (nat \<Rightarrow> nat \<Rightarrow> real) \<Rightarrow> mat \<Rightarrow> bool list \<Rightarrow> mat \<Rightarrow> bool list
     \<Rightarrow> (int \<times> int) list \<Rightarrow> error + float dgl_graph \<times> mat \<times> bool list" where
  "sub_graph_body node_drop_prob edge_drop_prob u o_b om_b r_b rm_b pairs_b =
     ebind (build_graph o_b om_b r_b rm_b pairs_b) (\<lambda>graph.
       Inr (drop_edge (u 1) (drop_node (u 0) graph node_drop_prob) edge_drop_prob, o_b, om_b))"

definition edge_drop_body ::
  "real \<Rightarrow> (nat \<Rightarrow> nat \<Rightarrow> real) \<Rightarrow> mat \<Rightarrow> bool list \<Rightarrow> mat \<Rightarrow> bool list \<Rightarrow> (int \<times> int) list
     \<Rightarrow> error + float dgl_graph \<times> mat \<times> bool list" where
  "edge_drop_body node_drop_prob u o_b om_b r_b rm_b pairs_b =
     ebind (build_graph o_b om_b r_b rm_b pairs_b) (\<lambda>graph.
       Inr (drop_node (u 0) graph node_drop_prob, o_b, om_b))"

definition attr_mask_body ::
  "real \<Rightarrow> (nat \<Rightarrow> nat \<Rightarrow> real) \<Rightarrow> mat \<Rightarrow> bool list \<Rightarrow> mat \<Rightarrow> bool list \<Rightarrow> (int \<times> int) list
     \<Rightarrow> error + float dgl_graph \<times> mat \<times> bool list" where
  "attr_mask_body attr_drop_prob u o_b om_b r_b rm_b pairs_b =
     ebind (bool_index o_b om_b) (\<lambda>x.
     ebind (bool_index_put o_b om_b (drop_feat (u 0) x attr_drop_prob)) (\<lambda>o_b'.
     ebind (build_graph o_b' om_b r_b rm_b pairs_b) (\<lambda>graph.
       Inr (graph, o_b', om_b))))"

definition global_node_body ::
  "mat \<Rightarrow> bool list \<Rightarrow> mat \<Rightarrow> bool list \<Rightarrow> (int \<times> int) list
     \<Rightarrow> error + float dgl_graph \<times> mat \<times> bool list" where
  "global_node_body o_b om_b r_b rm_b pairs_b =
     (if count_true om_b = 100
      then ebind (build_graph o_b om_b r_b rm_b pairs_b) (\<lambda>graph. Inr (graph, o_b, om_b))
      else
        ebind (bool_index o_b om_b) (\<lambda>F_n_org.
        (let global_node_embedding = nan_mean0 (ncols o_b) F_n_org in
        ebind (cat0 (floats F_n_org) [global_node_embedding]) (\<lambda>F_n.
        ebind (set_ndata ''F_n'' F_n (add_nodes (1 + count_true om_b) DGLGraph)) (\<lambda>g1.
        ebind (set_item om_b (count_true om_b) True) (\<lambda>om_b'.
        ebind (reals F_n) (\<lambda>F_n_reals.
        ebind (bool_index_put o_b om_b' F_n_reals) (\<lambda>o_b'.
        ebind (numpy_index pairs_b rm_b) (\<lambda>ps.
        ebind (add_edges (map fst ps) (map snd ps) g1) (\<lambda>g2.
        (let src = map int [0..<num_nodes g2 - 1];
             global_nodes = num_nodes g2 - 1
         in
        ebind (add_edges src (replicate (length src) (int global_nodes)) g2) (\<lambda>g3.
        ebind (add_edges (replicate (length src) (int global_nodes)) src g3) (\<lambda>g4.
        ebind (bool_index r_b rm_b) (\<lambda>F_e_org.
        (let global_edge_embedding = nan_mean0 (ncols r_b) F_e_org in
        ebind (expand global_edge_embedding (global_nodes * 2) 512) (\<lambda>global_edge_rows.
        ebind (cat0 (floats F_e_org) global_edge_rows) (\<lambda>F_e.
        ebind (set_edata ''F_e'' F_e g4) (\<lambda>graph.
          Inr (graph, o_b', om_b')))))))))))))))))))"

text \<open>
  The two nested loops \<^verbatim>\<open>for b in range(bsz): for k in range(beam_size):\<close>, as one loop
  over the pairs \<open>(b, k)\<close> in that order. The state is the list of graphs so far and the
  tensors \<open>o\<close> and \<open>om\<close>; \<open>r\<close>, \<open>rm\<close> and \<open>pairs\<close> are only read.
\<close>

type_synonym sample_body =
  "mat \<Rightarrow> bool list \<Rightarrow> mat \<Rightarrow> bool list \<Rightarrow> (int \<times> int) list \<Rightarrow> error + float dgl_graph \<times> mat \<times> bool list"

fun graphs_loop ::
  "(nat \<Rightarrow> nat \<Rightarrow> sample_body) \<Rightarrow> mat list \<Rightarrow> bool list list \<Rightarrow> (int \<times> int) list list
     \<Rightarrow> (nat \<times> nat) list \<Rightarrow> float dgl_graph list \<times> mat list \<times> bool list list
     \<Rightarrow> error + float dgl_graph list \<times> mat list \<times> bool list list" where
  "graphs_loop body r rm pairs [] st = Inr st"
| "graphs_loop body r rm pairs ((b, k) # bks) (graphs, ob, om) =
     (if length om \<le> b \<or> length r \<le> b \<or> length rm \<le> b \<or> length pairs \<le> b
      then Inl IndexError
      else (case body b k (ob ! b) (om ! b) (r ! b) (rm ! b) (pairs ! b) of
              Inl e \<Rightarrow> Inl e
            | Inr (graph, o_b, om_b) \<Rightarrow>
                graphs_loop body r rm pairs bks (graphs @ [graph], ob[b := o_b], om[b := om_b])))"

definition create_batched_graphs_augmented ::
  "uniforms \<Rightarrow> mat list \<Rightarrow> bool list list \<Rightarrow> mat list \<Rightarrow> bool list list \<Rightarrow> (int \<times> int) list list
     \<Rightarrow> nat \<Rightarrow> int \<Rightarrow> real \<Rightarrow> real \<Rightarrow> real
     \<Rightarrow> error + float dgl_graph list \<times> mat list \<times> bool list list" where
  "create_batched_graphs_augmented rnd ob om r rm pairs beam_size augmentation
       edge_drop_prob node_drop_prob attr_drop_prob =
     (let bsz = length ob;
          bks = List.product [0..<bsz] [0..<beam_size];
          u = (\<lambda>b k c i. rnd [b, k, c, i]);
          loop = (\<lambda>body. graphs_loop body r rm pairs bks ([], ob, om))
      in
      if augmentation = 0 then loop (\<lambda>b k. identical_body)
      else if augmentation = 1 then loop (\<lambda>b k. node_drop_body edge_drop_prob (u b k))
      else if augmentation = 2
        then loop (\<lambda>b k. sub_graph_body node_drop_prob edge_drop_prob (u b k))
      else if augmentation = 3 then loop (\<lambda>b k. edge_drop_body node_drop_prob (u b k))
      else if augmentation = 4 then loop (\<lambda>b k. attr_mask_body attr_drop_prob (u b k))
      else if augmentation = 5 then loop (\<lambda>b k. global_node_body)
      else Inl ValueError)"

section \<open>The attention module (\<^verbatim>\<open>models.py\<close>, class \<^verbatim>\<open>Attention\<close>)\<close>

text \<open>
  The three weight-normalised linear layers and the dropout probability of the
  module. \<open>full_att\<close> has one output, which \<^verbatim>\<open>squeeze(2)\<close> unwraps.
\<close>

record attention =
  features_att :: "vec \<Rightarrow> vec"
  decoder_att :: "vec \<Rightarrow> vec"
  full_att :: "vec \<Rightarrow> real"
  att_dropout :: real

text \<open>
  \<^verbatim>\<open>nn.Dropout(p)\<close>: the identity in evaluation mode; in training mode an entry is
  zeroed with probability \<open>p\<close> and scaled by \<open>1 / (1 - p)\<close> otherwise.
\<close>

definition nn_Dropout :: "bool \<Rightarrow> real \<Rightarrow> (nat \<Rightarrow> real) \<Rightarrow> vec \<Rightarrow> vec" where
  "nn_Dropout train p u x =
     (if train then map (\<lambda>(j, v). if u j < p then 0 else v / (1 - p)) (enumerate 0 x) else x)"

definition relu :: "real \<Rightarrow> real" where
  "relu v = max 0 v"

text \<open>An attention score: a real, or the \<open>-inf\<close> that \<^verbatim>\<open>masked_fill_\<close> writes.\<close>

datatype score = NegInf | Finite real

fun exp_score :: "score \<Rightarrow> real" where
  "exp_score NegInf = 0"
| "exp_score (Finite a) = exp a"

text \<open>\<^verbatim>\<open>att.masked_fill_(~mask, float('-inf'))\<close>: the mask has the shape of the scores.\<close>

definition masked_fill :: "real list list \<Rightarrow> bool list list \<Rightarrow> error + score list list" where
  "masked_fill att msk =
     (if map length msk = map length att
      then Inr (map (\<lambda>(row, mrow). map (\<lambda>(a, m). if m then Finite a else NegInf) (zip row mrow))
                  (zip att msk))
      else Inl RuntimeError)"

text \<open>
  \<^verbatim>\<open>nn.Softmax(dim=1)\<close> on one row of scores. A non-empty row of \<open>-inf\<close> alone has no
  softmax among the reals (torch returns NaN).
\<close>

definition softmax :: "score list \<Rightarrow> error + vec" where
  "softmax s =
     (if s \<noteq> [] \<and> list_all (\<lambda>x. x = NegInf) s then Inl NotANumber
      else Inr (map (\<lambda>x. exp_score x / sum_list (map exp_score s)) s))"

text \<open>
  \<^verbatim>\<open>(image_features * alpha.unsqueeze(2)).sum(dim=1)\<close> for one sample: every key row
  scaled by its weight, then the column sums.
\<close>

definition weighted_sum :: "mat \<Rightarrow> vec \<Rightarrow> vec" where
  "weighted_sum feats alpha = sum0 (map (\<lambda>(row, a). map (\<lambda>v. v * a) row) (zip feats alpha))"

text \<open>
  \<^verbatim>\<open>Attention.forward(image_features, decoder_hidden, mask=None)\<close>. The scores are
  \<^verbatim>\<open>att = self.full_att(self.dropout(self.relu(att1 + att2.unsqueeze(1)))).squeeze(2)\<close>;
  \<open>u [i, n, j]\<close> is the dropout draw for sample \<open>i\<close>, key \<open>n\<close>, channel \<open>j\<close>. Both call
  sites pass as many query rows as samples.
\<close>

definition attention_scores :: "attention \<Rightarrow> bool \<Rightarrow> uniforms \<Rightarrow> mat list \<Rightarrow> mat \<Rightarrow> real list list" where
  "attention_scores A train u image_feats decoder_hidden =
     (let att1 = map (map (features_att A)) image_feats;
          att2 = map (decoder_att A) decoder_hidden
      in map (\<lambda>(i, a1, a2).
                map (\<lambda>(n, row).
                      full_att A (nn_Dropout train (att_dropout A) (\<lambda>j. u [i, n, j])
                        (map relu (map (\<lambda>(x, y). x + y) (zip row a2)))))
                    (enumerate 0 a1))
             (zip [0..<length att1] (zip att1 att2)))"

definition Attention_forward ::
  "attention \<Rightarrow> bool \<Rightarrow> uniforms \<Rightarrow> mat list \<Rightarrow> mat \<Rightarrow> bool list list option \<Rightarrow> error + mat" where
  "Attention_forward A train u image_feats decoder_hidden msk =
     (if length image_feats \<noteq> length decoder_hidden then Inl RuntimeError
      else
        ebind (case msk of
                 None \<Rightarrow> Inr (map (map Finite) (attention_scores A train u image_feats decoder_hidden))
               | Some m \<Rightarrow> masked_fill (attention_scores A train u image_feats decoder_hidden) m)
          (\<lambda>att.
        ebind (sequence (map softmax att)) (\<lambda>alpha.
          Inr (map (\<lambda>(feats, a). weighted_sum feats a) (zip image_feats alpha)))))"

section \<open>The graph attention layer (\<^verbatim>\<open>models.py\<close>, class \<^verbatim>\<open>ContextGAT\<close>)\<close>

text \<open>
  The configuration flags and the layers that \<^verbatim>\<open>forward\<close> itself applies. \<open>update_all\<close>
  stands for \<^verbatim>\<open>graphs.update_all(self.io_attention_send, self.io_attention_reduce)\<close>:
  one round of DGL message passing, which reads \<open>h_t\<close>, \<open>s_n\<close>, \<open>F_n_t\<close>, \<open>F_e_t\<close> and
  writes \<open>F_i_tplus1\<close> and \<open>F_e_tplus1\<close>.
\<close>

record contextgat =
  use_obj_info :: bool
  use_rel_info :: bool
  k_update_steps :: int
  update_relations :: bool
  input_proj :: "vec \<Rightarrow> vec"
  object_score :: "vec \<Rightarrow> vec"
  update_all :: "real dgl_graph \<Rightarrow> error + real dgl_graph"

text \<open>
  \<^verbatim>\<open>ContextGAT.__init__\<close>: the assertion
  \<^verbatim>\<open>assert self.use_obj_info or self.use_rel_info\<close> guards the construction.
\<close>

definition ContextGAT_init ::
  "(vec \<Rightarrow> vec) \<Rightarrow> (vec \<Rightarrow> vec) \<Rightarrow> (real dgl_graph \<Rightarrow> error + real dgl_graph)
     \<Rightarrow> bool \<Rightarrow> bool \<Rightarrow> int \<Rightarrow> bool \<Rightarrow> error + contextgat" where
  "ContextGAT_init proj score engine obj_info rel_info k_steps upd_relations =
     (if obj_info \<or> rel_info
      then Inr \<lparr>use_obj_info = obj_info, use_rel_info = rel_info, k_update_steps = k_steps,
                update_relations = upd_relations, input_proj = proj, object_score = score,
                update_all = engine\<rparr>
      else Inl AssertionError)"

definition get_ndata :: "real dgl_graph \<Rightarrow> string \<Rightarrow> error + mat" where
  "get_ndata g k = (case ndata g k of None \<Rightarrow> Inl KeyError | Some v \<Rightarrow> Inr v)"

definition get_edata :: "real dgl_graph \<Rightarrow> string \<Rightarrow> error + mat" where
  "get_edata g k = (case edata g k of None \<Rightarrow> Inl KeyError | Some v \<Rightarrow> Inr v)"

text \<open>
  \<^verbatim>\<open>dgl.broadcast_nodes(graphs, h)\<close> and \<^verbatim>\<open>dgl.broadcast_edges(graphs, h)\<close>: row \<open>i\<close> of \<open>h\<close>
  repeated for every node (edge) of the \<open>i\<close>-th member of the batch.
\<close>

definition broadcast :: "nat list \<Rightarrow> mat \<Rightarrow> error + mat" where
  "broadcast counts h =
     (if length h = length counts then Inr (concat (map (\<lambda>(n, row). replicate n row) (zip counts h)))
      else Inl DGLError)"

text \<open>
  \<^verbatim>\<open>torch.split(x, split_size_or_sections=b_num_nodes)\<close>. The argument is the list that
  the caller passed as \<^verbatim>\<open>batch_num_nodes\<close>, or, when the caller passed none, the
  tensor \<^verbatim>\<open>graphs.batch_num_nodes()\<close>, with one entry per member of the batch.
  \<^item> A list of sizes must add up to the row count; the result has one section per size.
  \<^item> A tensor of one element is converted to the integer it holds, and \<open>x\<close> is cut
    into chunks of that many rows (at least one chunk; the chunk size 0 is accepted for
    an \<open>x\<close> without rows only).
  \<^item> Any other tensor is refused with \<open>TypeError\<close>.
\<close>

datatype split_arg = IntList "nat list" | IntTensor "nat list"

fun split_sections :: "'a list \<Rightarrow> nat list \<Rightarrow> 'a list list" where
  "split_sections xs [] = []"
| "split_sections xs (n # ns) = take n xs # split_sections (drop n xs) ns"

definition split_chunks :: "'a list \<Rightarrow> nat \<Rightarrow> error + 'a list list" where
  "split_chunks xs n =
     (if n = 0 \<and> xs \<noteq> [] then Inl RuntimeError
      else Inr (map (\<lambda>i. take n (drop (i * n) xs))
                  [0..<max 1 ((length xs + n - 1) div n)]))"

definition torch_split :: "'a list \<Rightarrow> split_arg \<Rightarrow> error + 'a list list" where
  "torch_split xs arg =
     (case arg of
        IntList sizes \<Rightarrow>
          if sum_list sizes = length xs then Inr (split_sections xs sizes) else Inl RuntimeError
      | IntTensor t \<Rightarrow> if length t = 1 then split_chunks xs (hd t) else Inl TypeError)"

text \<open>
  \<^verbatim>\<open>pad_sequence(seqs, batch_first=True)\<close> pads every sequence with zero rows to the
  longest one and refuses an empty list.
\<close>

definition pad_sequence :: "mat list \<Rightarrow> error + mat list" where
  "pad_sequence seqs =
     (if seqs = [] then Inl RuntimeError
      else
        (let max_len = foldr max (map length seqs) 0;
             width = ncols (concat seqs)
         in Inr (map (\<lambda>s. s @ replicate (max_len - length s) (replicate width 0)) seqs)))"

text \<open>
  One pass of the loop \<^verbatim>\<open>for _ in range(self.k_update_steps)\<close>:
  \<^verbatim>\<open>
  graphs.ndata['s_n'] = self.object_score(torch.cat([graphs.ndata['h_t'], graphs.ndata['F_n_t']], dim=-1))
  graphs.update_all(self.io_attention_send, self.io_attention_reduce)
  graphs.ndata['F_n_t'] = graphs.ndata['F_i_tplus1']
  if self.update_relations:
      graphs.edata['F_e_t'] = graphs.edata['F_e_tplus1']
  \<close>
\<close>

definition update_step :: "contextgat \<Rightarrow> real dgl_graph \<Rightarrow> error + real dgl_graph" where
  "update_step G graphs =
     ebind (get_ndata graphs ''h_t'') (\<lambda>h.
     ebind (get_ndata graphs ''F_n_t'') (\<lambda>F.
     ebind (set_ndata ''s_n'' (map (\<lambda>(x, y). object_score G (x @ y)) (zip h F)) graphs) (\<lambda>g1.
     ebind (update_all G g1) (\<lambda>g2.
     ebind (get_ndata g2 ''F_i_tplus1'') (\<lambda>F'.
     ebind (set_ndata ''F_n_t'' F' g2) (\<lambda>g3.
       if update_relations G
       then ebind (get_edata g3 ''F_e_tplus1'') (\<lambda>E'. set_edata ''F_e_t'' E' g3)
       else Inr g3))))))"

fun update_loop :: "contextgat \<Rightarrow> nat \<Rightarrow> real dgl_graph \<Rightarrow> error + real dgl_graph" where
  "update_loop G 0 graphs = Inr graphs"
| "update_loop G (Suc n) graphs =
     (case update_step G graphs of Inl e \<Rightarrow> Inl e | Inr g' \<Rightarrow> update_loop G n g')"

text \<open>The branch of \<^verbatim>\<open>forward\<close> taken when the batched graph has an edge.\<close>

definition message_passing :: "contextgat \<Rightarrow> mat \<Rightarrow> real dgl_graph \<Rightarrow> error + mat" where
  "message_passing G h_t graphs =
     ebind (broadcast (batch_num_nodes graphs) h_t) (\<lambda>broadcasted_hn.
     ebind (set_ndata ''h_t'' broadcasted_hn graphs) (\<lambda>g1.
     ebind (broadcast (batch_num_edges g1) h_t) (\<lambda>broadcasted_he.
     ebind (set_edata ''h_t'' broadcasted_he g1) (\<lambda>g2.
     ebind (get_ndata g2 ''F_n'') (\<lambda>F_n.
     ebind (set_ndata ''F_n_t'' F_n g2) (\<lambda>g3.
     ebind (get_edata g3 ''F_e'') (\<lambda>F_e.
     ebind (set_edata ''F_e_t'' F_e g3) (\<lambda>g4.
     ebind (update_loop G (nat (k_update_steps G)) g4) (\<lambda>g5.
       get_ndata g5 ''F_n_t'')))))))))"

text \<open>
  \<^verbatim>\<open>ContextGAT.forward(input_hidden, graphs, batch_num_nodes=None)\<close>: returns the padded
  node features \<open>io\<close> and the mask \<^verbatim>\<open>io.sum(dim=-1) != 0\<close>. \<open>rsum\<close> stands for the
  sum of one row as torch computes it on 32-bit floats.
  \<^verbatim>\<open>
  if batch_num_nodes is None:
      b_num_nodes = graphs.batch_num_nodes()
  else:
      b_num_nodes = batch_num_nodes
  \<close>
\<close>

definition ContextGAT_forward ::
  "contextgat \<Rightarrow> (vec \<Rightarrow> real) \<Rightarrow> mat \<Rightarrow> real dgl_graph \<Rightarrow> nat list option
     \<Rightarrow> error + mat list \<times> bool list list" where
  "ContextGAT_forward G rsum input_hidden graphs bnn =
     (let b_num_nodes = (case bnn of None \<Rightarrow> IntTensor (batch_num_nodes graphs)
                                    | Some l \<Rightarrow> IntList l);
          h_t = map (input_proj G) input_hidden
      in
      ebind (if number_of_edges graphs > 0
             then ebind (message_passing G h_t graphs) (\<lambda>F_n_t. torch_split F_n_t b_num_nodes)
             else ebind (get_ndata graphs ''F_n'') (\<lambda>F_n. torch_split F_n b_num_nodes)) (\<lambda>io.
      ebind (pad_sequence io) (\<lambda>io.
        Inr (io, map (map (\<lambda>row. rsum row \<noteq> 0)) io))))"

section \<open>The cascade decoder (\<^verbatim>\<open>models.py\<close>, class \<^verbatim>\<open>cascade_sg_first_contextGAT_Decoder\<close>)\<close>

text \<open>
  The attributes of the module that the forward pass reads, and its sub-modules.
  \<open>training\<close> is torch's \<^verbatim>\<open>self.training\<close>, shared by the sub-modules. \<open>row_sum\<close> is
  not an attribute: it is the sum of a row in 32-bit floats that the forward pass
  hands to the graph attention layer.
\<close>

record decoder =
  vocab_size :: nat
  decoder_dim :: nat
  augmentation :: int
  edge_drop_prob :: real
  node_drop_prob :: real
  attr_drop_prob :: real
  dropout :: real
  word_map :: "(string \<rightharpoonup> nat) option"
  teacher_force :: bool
  training :: bool
  context_gat :: contextgat
  cascade1_attention :: attention
  cascade2_attention :: attention
  embedding :: "nat \<Rightarrow> vec"
  top_down_attention :: "vec \<Rightarrow> vec \<times> vec \<Rightarrow> vec \<times> vec"
  language_model :: "vec \<Rightarrow> vec \<times> vec \<Rightarrow> vec \<times> vec"
  fc1 :: "vec \<Rightarrow> vec"
  fc :: "vec \<Rightarrow> vec"
  row_sum :: "vec \<Rightarrow> real"

text \<open>The arguments of \<^verbatim>\<open>forward\<close>; \<open>caption_lengths\<close> is the \<open>(batch, 1)\<close> column.\<close>

record inputs =
  image_features :: "mat list"
  object_features :: "mat list"
  relation_features :: "mat list"
  object_mask :: "bool list list"
  relation_mask :: "bool list list"
  pair_ids :: "(int \<times> int) list list"
  encoded_captions :: "nat list list"
  caption_lengths :: "int list"

text \<open>
  The local variables that the timestep loop only reads: the batch sorted by
  caption length, the two mean vectors per sample, and the graphs.
\<close>

record dec_ctx =
  caption_lengths_sorted :: "int list"
  sort_ind :: "nat list"
  image_features_sorted :: "mat list"
  object_features_sorted :: "mat list"
  object_mask_sorted :: "bool list list"
  relation_features_sorted :: "mat list"
  relation_mask_sorted :: "bool list list"
  pair_ids_sorted :: "(int \<times> int) list list"
  image_features_mean :: mat
  graph_features_mean :: mat
  g_graphs :: "float dgl_graph list"

text \<open>The variables the loop updates: the two LSTM states and the two output buffers.\<close>

record dec_state =
  h1 :: mat
  c1 :: mat
  h2 :: mat
  c2 :: mat
  predictions :: "mat list"
  predictions1 :: "mat list"

text \<open>
  \<^verbatim>\<open>x.sort(dim=0, descending=True)\<close>: the sorted values and the permutation. torch
  leaves the order of equal values open; the model keeps them in input order.
\<close>

definition sort_descending :: "int list \<Rightarrow> int list \<times> nat list" where
  "sort_descending xs =
     (let ind = sort_key (\<lambda>i. - (xs ! i)) [0..<length xs] in (map (\<lambda>i. xs ! i) ind, ind))"

text \<open>
  \<^verbatim>\<open>torch.cat([o, r], dim=1).sum(dim=1) / torch.cat([om, rm], dim=1).sum(dim=1, keepdim=True)\<close>:
  per sample, the column sums over all object and relation slots, divided by the
  number of masked-in objects and relations.
\<close>

definition graph_mean ::
  "mat list \<Rightarrow> mat list \<Rightarrow> bool list list \<Rightarrow> bool list list \<Rightarrow> error + mat" where
  "graph_mean ob r om rm =
     (if length ob \<noteq> length r \<or> length om \<noteq> length rm \<or> length ob \<noteq> length om \<or>
         \<not> list_all (\<lambda>(a, b). a = [] \<or> b = [] \<or> ncols a = ncols b) (zip ob r)
      then Inl RuntimeError
      else sequence
        (map (\<lambda>(feat, cnt). if cnt = 0 then Inl NotANumber
                            else Inr (map (\<lambda>s. s / real cnt) feat))
          (zip (map (\<lambda>(a, b). sum0 (a @ b)) (zip ob r))
               (map (\<lambda>(a, b). count_true (a @ b)) (zip om rm)))))"

text \<open>
  The start of the three forward functions up to the sorting
  (\<^verbatim>\<open>image_features = image_features[sort_ind]\<close> and so on).
\<close>

definition sort_batch :: "inputs \<Rightarrow> error + dec_ctx" where
  "sort_batch X =
     ebind (sequence (map mean0 (image_features X))) (\<lambda>img_mean.
     ebind (graph_mean (object_features X) (relation_features X)
              (object_mask X) (relation_mask X)) (\<lambda>gr_mean.
     (case sort_descending (caption_lengths X) of (lens, ind) \<Rightarrow>
     ebind (index_select (image_features X) ind) (\<lambda>img.
     ebind (index_select (object_features X) ind) (\<lambda>obj.
     ebind (index_select (object_mask X) ind) (\<lambda>om.
     ebind (index_select (relation_features X) ind) (\<lambda>rel.
     ebind (index_select (relation_mask X) ind) (\<lambda>rm.
     ebind (index_select (pair_ids X) ind) (\<lambda>pairs.
     ebind (index_select img_mean ind) (\<lambda>img_mean'.
     ebind (index_select gr_mean ind) (\<lambda>gr_mean'.
       Inr \<lparr>caption_lengths_sorted = lens, sort_ind = ind, image_features_sorted = img,
            object_features_sorted = obj, object_mask_sorted = om,
            relation_features_sorted = rel, relation_mask_sorted = rm,
            pair_ids_sorted = pairs, image_features_mean = img_mean',
            graph_features_mean = gr_mean', g_graphs = []\<rparr>)))))))))))"

text \<open>
  \<^verbatim>\<open>
  if self.training:
      g, object_features, object_mask = create_batched_graphs_augmented(...,
          augmentation=self.augmentation, edge_drop_prob=self.edge_drop_prob, ...)
  else:
      g, object_features, object_mask = create_batched_graphs_augmented(...,
          augmentation=0, edge_drop_prob=self.edge_drop_prob, ...)
  \<close>
\<close>

definition init_graphs :: "decoder \<Rightarrow> uniforms \<Rightarrow> dec_ctx \<Rightarrow> error + dec_ctx" where
  "init_graphs D u C =
     ebind
       (if training D
        then create_batched_graphs_augmented u (object_features_sorted C) (object_mask_sorted C)
               (relation_features_sorted C) (relation_mask_sorted C) (pair_ids_sorted C) 1
               (augmentation D) (edge_drop_prob D) (node_drop_prob D) (attr_drop_prob D)
        else create_batched_graphs_augmented u (object_features_sorted C) (object_mask_sorted C)
               (relation_features_sorted C) (relation_mask_sorted C) (pair_ids_sorted C) 1
               0 (edge_drop_prob D) (node_drop_prob D) (attr_drop_prob D))
       (\<lambda>(g, obj, om).
          Inr (C\<lparr>g_graphs := g, object_features_sorted := obj, object_mask_sorted := om\<rparr>))"

text \<open>\<^verbatim>\<open>init_hidden_state\<close>, Python's \<^verbatim>\<open>max\<close> of a list, and \<^verbatim>\<open>torch.zeros(b, T, v)\<close>.\<close>

definition init_hidden_state :: "decoder \<Rightarrow> nat \<Rightarrow> mat \<times> mat" where
  "init_hidden_state D batch_size =
     (replicate batch_size (replicate (decoder_dim D) 0),
      replicate batch_size (replicate (decoder_dim D) 0))"

definition py_max :: "int list \<Rightarrow> error + int" where
  "py_max xs = (case xs of [] \<Rightarrow> Inl ValueError | x # ys \<Rightarrow> Inr (fold max ys x))"

definition torch_zeros :: "nat \<Rightarrow> int \<Rightarrow> nat \<Rightarrow> error + mat list" where
  "torch_zeros b T v =
     (if T < 0 then Inl RuntimeError else Inr (replicate b (replicate (nat T) (replicate v 0))))"

definition init_state :: "decoder \<Rightarrow> nat \<Rightarrow> mat list \<Rightarrow> dec_state" where
  "init_state D batch_size zeros =
     \<lparr>h1 = fst (init_hidden_state D batch_size), c1 = snd (init_hidden_state D batch_size),
      h2 = fst (init_hidden_state D batch_size), c2 = snd (init_hidden_state D batch_size),
      predictions = zeros, predictions1 = zeros\<rparr>"

text \<open>\<^verbatim>\<open>batch_size_t = sum([l > t for l in decode_lengths])\<close>\<close>

definition batch_size_t :: "int list \<Rightarrow> nat \<Rightarrow> nat" where
  "batch_size_t decode_lengths t =
     sum_list (map (\<lambda>l. if l > int t then 1 else 0) decode_lengths)"

text \<open>
  \<^verbatim>\<open>torch.cat(parts, dim=1)\<close> of matrices with one row per sample; an LSTM cell applied
  to every row; the decoder's dropout on every row; \<^verbatim>\<open>embeddings[:n, t, :]\<close>;
  \<^verbatim>\<open>preds.max(1)[1]\<close> (the index of the first largest entry of a row).
\<close>

definition cat1 :: "mat list \<Rightarrow> error + mat" where
  "cat1 parts =
     (case parts of [] \<Rightarrow> Inl RuntimeError
      | p # ps \<Rightarrow>
          if list_all (\<lambda>q. length q = length p) ps
          then Inr (map (\<lambda>i. concat (map (\<lambda>q. q ! i) parts)) [0..<length p])
          else Inl RuntimeError)"

definition lstm_rows ::
  "(vec \<Rightarrow> vec \<times> vec \<Rightarrow> vec \<times> vec) \<Rightarrow> mat \<Rightarrow> mat \<Rightarrow> mat \<Rightarrow> (vec \<times> vec) list" where
  "lstm_rows cell x h c = map (\<lambda>(xr, hr, cr). cell xr (hr, cr)) (zip x (zip h c))"

definition dropout_rows :: "bool \<Rightarrow> real \<Rightarrow> uniforms \<Rightarrow> mat \<Rightarrow> mat" where
  "dropout_rows train p u x =
     map (\<lambda>(i, row). nn_Dropout train p (\<lambda>j. u [i, j]) row) (enumerate 0 x)"

definition select_timestep :: "mat list \<Rightarrow> nat \<Rightarrow> error + mat" where
  "select_timestep e t =
     (if list_all (\<lambda>row. t < length row) e then Inr (map (\<lambda>row. row ! t) e) else Inl IndexError)"

definition argmax :: "vec \<Rightarrow> error + nat" where
  "argmax v =
     (case v of [] \<Rightarrow> Inl IndexError
      | x # xs \<Rightarrow> Inr (hd (filter (\<lambda>i. v ! i = fold max xs x) [0..<length v])))"

text \<open>
  The reconciliation of the graph attention output with the object slots:
  \<^verbatim>\<open>
  cgat_obj = torch.zeros_like(of)
  cgat_obj[:, :cgat_out.size(1)] = cgat_out
  cgat_mask = torch.zeros_like(om)
  cgat_mask[:, :cgat_mask_out.size(1)] = cgat_mask_out
  cgat_obj[~cgat_mask & om] = of[~cgat_mask & om]
  \<close>
\<close>

definition assign_prefix :: "'a list list \<Rightarrow> 'a list list \<Rightarrow> error + 'a list list" where
  "assign_prefix dst src =
     (if length src = length dst \<and> list_all (\<lambda>(d, s). length s \<le> length d) (zip dst src)
      then Inr (map (\<lambda>(d, s). s @ drop (length s) d) (zip dst src))
      else Inl RuntimeError)"

definition reconcile ::
  "mat list \<Rightarrow> bool list list \<Rightarrow> mat list \<Rightarrow> bool list list \<Rightarrow> error + mat list" where
  "reconcile obj_f om cgat_out cgat_mask_out =
     ebind (assign_prefix (map (map (map (\<lambda>_. 0))) obj_f) cgat_out) (\<lambda>cgat_obj.
     ebind (assign_prefix (map (map (\<lambda>_. False)) om) cgat_mask_out) (\<lambda>cgat_mask.
       Inr (map (\<lambda>(co, f, cm, m).
                  map (\<lambda>(x, y, a, b). if \<not> a \<and> b then y else x) (zip co (zip f (zip cm m))))
              (zip cgat_obj (zip obj_f (zip cgat_mask om))))))"

text \<open>
  \<^verbatim>\<open>predictions[:batch_size_t, t, :] = preds\<close>: row \<open>t\<close> of the first \<open>batch_size_t\<close>
  samples is overwritten. (\<open>preds\<close> has one row per active sample, of the width of the
  vocabulary: it is the output of \<^verbatim>\<open>nn.Linear(decoder_dim, vocab_size)\<close> on the
  \<open>batch_size_t\<close> rows of the state.)
\<close>

definition write_timestep :: "mat list \<Rightarrow> nat \<Rightarrow> nat \<Rightarrow> mat \<Rightarrow> mat list" where
  "write_timestep P n t preds =
     map (\<lambda>(i, rows). if i < n then rows[t := preds ! i] else rows) (enumerate 0 P)"

text \<open>
  The batched graph of the builder, read as a graph of reals when it is handed to the
  graph attention layer. The graphs of the builder carry the node feature \<open>F_n\<close> and
  the edge feature \<open>F_e\<close> and no other; a NaN in one of them gives
  \<open>Inl NotANumber\<close>.
\<close>

definition real_feature :: "fmat option \<Rightarrow> error + mat option" where
  "real_feature f = (case f of None \<Rightarrow> Inr None | Some m \<Rightarrow> ebind (reals m) (\<lambda>v. Inr (Some v)))"

definition real_graph :: "float dgl_graph \<Rightarrow> error + real dgl_graph" where
  "real_graph g =
     ebind (real_feature (ndata g ''F_n'')) (\<lambda>F_n.
     ebind (real_feature (edata g ''F_e'')) (\<lambda>F_e.
       Inr \<lparr>num_nodes = num_nodes g, edge_list = edge_list g,
            ndata = Map.empty(''F_n'' := F_n), edata = Map.empty(''F_e'' := F_e),
            batch_num_nodes = batch_num_nodes g, batch_num_edges = batch_num_edges g\<rparr>))"

text \<open>
  The body of the timestep loop that the three forward functions share, from
  \<^verbatim>\<open>sub_g = dgl.batch(g[:batch_size_t])\<close> to the two writes into the output buffers.
  \<open>emb\<close> is the embedding input of the top-down cell, which the three functions choose
  differently. The result is the new state and \<open>preds\<close>.
\<close>

definition cascade_step ::
  "decoder \<Rightarrow> uniforms \<Rightarrow> dec_ctx \<Rightarrow> nat \<Rightarrow> nat \<Rightarrow> mat \<Rightarrow> dec_state \<Rightarrow> error + dec_state \<times> mat" where
  "cascade_step D u C t n emb st =
     ebind (dgl_batch (take n (g_graphs C))) (\<lambda>sub_g.
     ebind (cat1 [take n (h2 st), take n (image_features_mean C),
                  take n (graph_features_mean C), emb]) (\<lambda>x1.
     (let hc1 = lstm_rows (top_down_attention D) x1 (take n (h1 st)) (take n (c1 st));
          h1' = map fst hc1;
          c1' = map snd hc1
      in
     ebind (real_graph sub_g) (\<lambda>sub_g_reals.
     ebind (ContextGAT_forward (context_gat D) (row_sum D) (take n h1') sub_g_reals
              (Some (batch_num_nodes sub_g))) (\<lambda>(cgat_out, cgat_mask_out).
     (let obj_f = take n (object_features_sorted C);
          om = take n (object_mask_sorted C)
      in
     ebind (reconcile obj_f om cgat_out cgat_mask_out) (\<lambda>cgat_obj.
     ebind (Attention_forward (cascade1_attention D) (training D) (\<lambda>p. u (0 # t # p))
              (take n cgat_obj) (take n h1') (Some om)) (\<lambda>graph_weighted_enc.
     ebind (cat1 [take n h1', take n graph_weighted_enc]) (\<lambda>query.
     ebind (Attention_forward (cascade2_attention D) (training D) (\<lambda>p. u (1 # t # p))
              (take n (image_features_sorted C)) query None) (\<lambda>img_weighted_enc.
     (let preds1 = map (fc1 D) (dropout_rows (training D) (dropout D) (\<lambda>p. u (2 # t # p)) h1')
      in
     ebind (cat1 [take n graph_weighted_enc, take n img_weighted_enc, take n h1']) (\<lambda>x2.
     (let hc2 = lstm_rows (language_model D) x2 (take n (h2 st)) (take n (c2 st));
          h2' = map fst hc2;
          c2' = map snd hc2;
          preds = map (fc D) (dropout_rows (training D) (dropout D) (\<lambda>p. u (3 # t # p)) h2')
      in
       Inr (\<lparr>h1 = h1', c1 = c1', h2 = h2', c2 = c2',
             predictions = write_timestep (predictions st) n t preds,
             predictions1 = write_timestep (predictions1 st) n t preds1\<rparr>, preds))))))))))))))"

text \<open>
  The loop of \<^verbatim>\<open>_forward_with_teacher_forcing\<close>: the embedding input at step \<open>t\<close> is
  \<^verbatim>\<open>embeddings[:batch_size_t, t, :]\<close>.
\<close>

fun teacher_forcing_loop ::
  "decoder \<Rightarrow> uniforms \<Rightarrow> dec_ctx \<Rightarrow> int list \<Rightarrow> mat list \<Rightarrow> nat list \<Rightarrow> dec_state
     \<Rightarrow> error + dec_state" where
  "teacher_forcing_loop D u C decode_lengths embeddings [] st = Inr st"
| "teacher_forcing_loop D u C decode_lengths embeddings (t # ts) st =
     (case select_timestep (take (batch_size_t decode_lengths t) embeddings) t of
        Inl e \<Rightarrow> Inl e
      | Inr emb \<Rightarrow>
          (case cascade_step D u C t (batch_size_t decode_lengths t) emb st of
             Inl e \<Rightarrow> Inl e
           | Inr (st', preds) \<Rightarrow> teacher_forcing_loop D u C decode_lengths embeddings ts st'))"

text \<open>
  The loop of \<^verbatim>\<open>_forward_no_teacher_force\<close>: the embedding input is
  \<^verbatim>\<open>embeddings[:batch_size_t]\<close>, and after every step
  \<^verbatim>\<open>embeddings = self.embedding(preds.max(1)[1])\<close>.
\<close>

fun no_teacher_force_loop ::
  "decoder \<Rightarrow> uniforms \<Rightarrow> dec_ctx \<Rightarrow> int list \<Rightarrow> mat \<Rightarrow> nat list \<Rightarrow> dec_state
     \<Rightarrow> error + dec_state" where
  "no_teacher_force_loop D u C decode_lengths embeddings [] st = Inr st"
| "no_teacher_force_loop D u C decode_lengths embeddings (t # ts) st =
     (case cascade_step D u C t (batch_size_t decode_lengths t)
             (take (batch_size_t decode_lengths t) embeddings) st of
        Inl e \<Rightarrow> Inl e
      | Inr (st', preds) \<Rightarrow>
          (case sequence (map argmax preds) of
             Inl e \<Rightarrow> Inl e
           | Inr toks \<Rightarrow>
               no_teacher_force_loop D u C decode_lengths (map (embedding D) toks) ts st'))"

text \<open>
  \<^verbatim>\<open>torch.tensor([[self.word_map['<start>']]] * batch_size)\<close>: the look-up fails on a
  missing map or key.
\<close>

definition k_prev_words :: "decoder \<Rightarrow> nat \<Rightarrow> error + nat list list" where
  "k_prev_words D batch_size =
     (case word_map D of None \<Rightarrow> Inl TypeError
      | Some wm \<Rightarrow>
          (case wm ''<start>'' of None \<Rightarrow> Inl KeyError
           | Some start \<Rightarrow> Inr (replicate batch_size [start])))"

type_synonym result = "mat list \<times> mat list \<times> nat list list \<times> int list \<times> nat list"

definition forward_with_teacher_forcing :: "decoder \<Rightarrow> uniforms \<Rightarrow> inputs \<Rightarrow> error + result" where
  "forward_with_teacher_forcing D u X =
     (let batch_size = length (image_features X) in
     ebind (sort_batch X) (\<lambda>C0.
     ebind (index_select (encoded_captions X) (sort_ind C0)) (\<lambda>captions.
     ebind (init_graphs D (\<lambda>p. u (0 # p)) C0) (\<lambda>C.
     (let embeddings = map (map (embedding D)) captions;
          decode_lengths = map (\<lambda>l. l - 1) (caption_lengths_sorted C)
      in
     ebind (py_max decode_lengths) (\<lambda>T.
     ebind (torch_zeros batch_size T (vocab_size D)) (\<lambda>zeros.
     ebind (teacher_forcing_loop D (\<lambda>p. u (1 # p)) C decode_lengths embeddings [0..<nat T]
              (init_state D batch_size zeros)) (\<lambda>st.
       Inr (predictions st, predictions1 st, captions, decode_lengths, sort_ind C)))))))))"

definition forward_no_teacher_force :: "decoder \<Rightarrow> uniforms \<Rightarrow> inputs \<Rightarrow> error + result" where
  "forward_no_teacher_force D u X =
     (let batch_size = length (image_features X) in
     ebind (sort_batch X) (\<lambda>C0.
     ebind (init_graphs D (\<lambda>p. u (0 # p)) C0) (\<lambda>C.
     ebind (k_prev_words D batch_size) (\<lambda>prev.
     (let embeddings = map (\<lambda>row. embedding D (hd row)) prev;
          decode_lengths = map (\<lambda>l. l - 1) (caption_lengths_sorted C)
      in
     ebind (py_max decode_lengths) (\<lambda>T.
     ebind (torch_zeros batch_size T (vocab_size D)) (\<lambda>zeros.
     ebind (no_teacher_force_loop D (\<lambda>p. u (1 # p)) C decode_lengths embeddings [0..<nat T]
              (init_state D batch_size zeros)) (\<lambda>st.
       Inr (predictions st, predictions1 st, encoded_captions X, decode_lengths,
            sort_ind C)))))))))"

text \<open>
  \<^verbatim>\<open>forward\<close>: \<^verbatim>\<open>if self.teacher_force: ... else: ...\<close>
\<close>

definition forward :: "decoder \<Rightarrow> uniforms \<Rightarrow> inputs \<Rightarrow> error + result" where
  "forward D u X =
     (if teacher_force D then forward_with_teacher_forcing D u X
      else forward_no_teacher_force D u X)"





section \<open>Well-formed inputs\<close>

text \<open>
  What the graph builder needs of one sample for DGL to accept it: the masks have one
  entry per slot, there is one index pair per relation slot, and every pair of a
  masked-in relation names two of the \<open>n\<close> nodes of the graph. There are at least
  two relation slots (the data has 100 per sample): a mask over a single slot is read
  by numpy as an integer index.
\<close>

definition valid_pairs :: "nat \<Rightarrow> (int \<times> int) list \<Rightarrow> bool" where
  "valid_pairs n ps = list_all (\<lambda>(u, v). 0 \<le> u \<and> u < int n \<and> 0 \<le> v \<and> v < int n) ps"

definition well_formed_sample ::
  "mat \<Rightarrow> bool list \<Rightarrow> mat \<Rightarrow> bool list \<Rightarrow> (int \<times> int) list \<Rightarrow> bool" where
  "well_formed_sample o_b om_b r_b rm_b pairs_b =
     (length om_b = length o_b \<and> length rm_b = length r_b \<and> length pairs_b = length rm_b \<and>
      1 < length rm_b \<and> valid_pairs (count_true om_b) (select pairs_b rm_b))"

text \<open>
  What the global-node branch needs in addition, unless the sample is at its capacity
  of 100 objects: at least one object (the decoder attends over the objects of a
  sample, and with none the mean node feature, which the branch writes into \<open>o\<close>, is
  NaN), a free slot at index \<open>om[b].sum()\<close>, where the branch marks the new node in
  the mask, and relation features of width 512, the width to which the branch expands
  the mean relation feature.
\<close>

definition global_node_ready ::
  "mat \<Rightarrow> bool list \<Rightarrow> mat \<Rightarrow> bool list \<Rightarrow> (int \<times> int) list \<Rightarrow> bool" where
  "global_node_ready o_b om_b r_b rm_b pairs_b =
     (well_formed_sample o_b om_b r_b rm_b pairs_b \<and>
      (count_true om_b = 100 \<or>
       0 < count_true om_b \<and> count_true om_b < length om_b \<and> \<not> om_b ! count_true om_b \<and>
       list_all (\<lambda>row. length row = 512) r_b))"

section \<open>The frame of the timestep loop\<close>


section \<open>A small decoder and batch\<close>

text \<open>
  A decoder in evaluation mode with constant layers, and a batch of two samples with
  one object each, two relation slots and no relation, captions of three tokens and
  caption lengths 2 and 3. The theorems below are instantiated on them. (All numbers
  are small integers, whose sums in 32-bit floats are exact.)
\<close>

definition example_gat :: contextgat where
  "example_gat = \<lparr>use_obj_info = True, use_rel_info = True, k_update_steps = 1,
     update_relations = True, input_proj = (\<lambda>v. v), object_score = (\<lambda>v. [0]), update_all = Inr\<rparr>"

definition example_attention :: attention where
  "example_attention = \<lparr>features_att = (\<lambda>v. v), decoder_att = (\<lambda>v. [0]), full_att = sum_list,
     att_dropout = 1 / 2\<rparr>"

definition example_decoder :: "bool \<Rightarrow> decoder" where
  "example_decoder tf = \<lparr>vocab_size = 2, decoder_dim = 1, augmentation = 5,
     edge_drop_prob = 1 / 5, node_drop_prob = 1 / 5, attr_drop_prob = 1 / 5, dropout = 1 / 2,
     word_map = Some [''<start>'' \<mapsto> 1], teacher_force = tf, training = False,
     context_gat = example_gat, cascade1_attention = example_attention,
     cascade2_attention = example_attention, embedding = (\<lambda>tok. [real tok]),
     top_down_attention = (\<lambda>x hc. ([1], [1])), language_model = (\<lambda>x hc. ([1], [1])),
     fc1 = (\<lambda>h. [3, 4]), fc = (\<lambda>h. [1, 2]), row_sum = sum_list\<rparr>"

definition example_inputs :: inputs where
  "example_inputs = \<lparr>image_features = [[[1]], [[1]]], object_features = [[[1]], [[1]]],
     relation_features = [[[1], [1]], [[1], [1]]], object_mask = [[True], [True]],
     relation_mask = [[False, False], [False, False]],
     pair_ids = [[(0, 0), (0, 0)], [(0, 0), (0, 0)]],
     encoded_captions = [[1, 2, 0], [1, 3, 2]], caption_lengths = [2, 3]\<rparr>"

definition example_graph :: "float dgl_graph" where
  "example_graph = \<lparr>num_nodes = 1, edge_list = [], ndata = [''F_n'' \<mapsto> [[Value 1]]],
     edata = [''F_e'' \<mapsto> []], batch_num_nodes = [1], batch_num_edges = [0]\<rparr>"

definition example_ctx :: dec_ctx where
  "example_ctx = \<lparr>caption_lengths_sorted = [3, 2], sort_ind = [1, 0], image_features_sorted = [[[1]], [[1]]],
          object_features_sorted = [[[1]], [[1]]], object_mask_sorted = [[True], [True]],
          relation_features_sorted = [[[1], [1]], [[1], [1]]],
          relation_mask_sorted = [[False, False], [False, False]],
          pair_ids_sorted = [[(0, 0), (0, 0)], [(0, 0), (0, 0)]], image_features_mean = [[1], [1]],
          graph_features_mean = [[3], [3]], g_graphs = [example_graph, example_graph]\<rparr>"

section \<open>Basic facts\<close>

lemma ebind_simps [simp]:
  "ebind (Inl e) f = Inl e"
  "ebind (Inr x) f = f x"
  by (simp_all add: ebind_def)

lemma length_select: "length m = length xs \<Longrightarrow> length (select xs m) = count_true m"
  unfolding select_def count_true_def
proof (induction xs arbitrary: m)
  case Nil then show ?case by simp
next
  case (Cons x xs)
  then obtain b bs where m: "m = b # bs" by (cases m) auto
  with Cons show ?case by simp
qed

lemma bool_index_select: "length m = length xs \<Longrightarrow> bool_index xs m = Inr (select xs m)"
  by (simp add: bool_index_def select_def)

lemma numpy_index_mask: "length m \<noteq> 1 \<Longrightarrow> numpy_index xs m = bool_index xs m"
  by (simp add: numpy_index_def)

lemma sequence_map_Inr: "sequence (map Inr xs) = Inr xs"
  by (induction xs) auto

lemma reals_floats: "reals (floats m) = Inr m"
proof -
  have row: "sequence (map (real_of \<circ> Value) row) = Inr row" for row
    by (induction row) auto
  have "map (\<lambda>row. sequence (map real_of row)) (floats m) = map Inr m"
    unfolding floats_def by (induction m) (simp_all add: row)
  then show ?thesis by (simp add: reals_def sequence_map_Inr)
qed

lemma ncols_Cons [simp]: "ncols (row # m) = length row"
  by (simp add: ncols_def)

lemma floats_simps [simp]:
  "length (floats m) = length m" "floats (a @ b) = floats a @ floats b" "floats [] = []"
  "floats (row # m) = map Value row # floats m" "ncols (floats m) = ncols m"
  by (cases m; simp add: floats_def ncols_def)+

lemma set_select: "set (select xs m) \<subseteq> set xs"
  by (auto simp: select_def dest: set_zip_leftD)

lemma valid_pairs_fst: "valid_pairs n ps \<Longrightarrow> list_all (\<lambda>i. 0 \<le> i \<and> i < int n) (map fst ps)"
  by (induction ps) (auto simp: valid_pairs_def)

lemma valid_pairs_snd: "valid_pairs n ps \<Longrightarrow> list_all (\<lambda>i. 0 \<le> i \<and> i < int n) (map snd ps)"
  by (induction ps) (auto simp: valid_pairs_def)

lemma zip_fst_snd_nat: "zip (map (nat \<circ> fst) ps) (map (nat \<circ> snd) ps) = map (\<lambda>(u, v). (nat u, nat v)) ps"
  by (induction ps) auto

lemma build_graph_ok:
  assumes "length om_b = length o_b" "length rm_b = length r_b" "length pairs_b = length rm_b"
      and "valid_pairs (count_true om_b) (select pairs_b rm_b)"
      and "length rm_b \<noteq> 1"
  shows "build_graph o_b om_b r_b rm_b pairs_b =
     Inr \<lparr>num_nodes = count_true om_b,
          edge_list = map (\<lambda>(u, v). (nat u, nat v)) (select pairs_b rm_b),
          ndata = [''F_n'' \<mapsto> floats (select o_b om_b)],
          edata = [''F_e'' \<mapsto> floats (select r_b rm_b)],
          batch_num_nodes = [count_true om_b],
          batch_num_edges = [count_true rm_b]\<rparr>"
  using assms valid_pairs_fst[OF assms(4)] valid_pairs_snd[OF assms(4)]
  by (simp add: build_graph_def bool_index_select numpy_index_mask length_select set_ndata_def
      add_nodes_def DGLGraph_def add_edges_def valid_node_def[abs_def] number_of_edges_def
      set_edata_def zip_fst_snd_nat)

lemma identical_body_ok:
  assumes "length om_b = length o_b" "length rm_b = length r_b" "length pairs_b = length rm_b"
      and "valid_pairs (count_true om_b) (select pairs_b rm_b)"
      and "length rm_b \<noteq> 1"
  shows "identical_body o_b om_b r_b rm_b pairs_b =
     Inr (\<lparr>num_nodes = count_true om_b,
          edge_list = map (\<lambda>(u, v). (nat u, nat v)) (select pairs_b rm_b),
          ndata = [''F_n'' \<mapsto> floats (select o_b om_b)],
          edata = [''F_e'' \<mapsto> floats (select r_b rm_b)],
          batch_num_nodes = [count_true om_b],
          batch_num_edges = [count_true rm_b]\<rparr>, o_b, om_b)"
  by (simp add: identical_body_def build_graph_ok[OF assms])

text \<open>
  A sample with a single relation slot: the mask \<open>[False]\<close> is read as the index 0, so
  that one edge is added and the zero rows of \<^verbatim>\<open>r[b, rm[b]]\<close> do not fit it; the
  mask \<open>[True]\<close> is read as the index 1, which \<^verbatim>\<open>pairs[b]\<close> does not have.
\<close>

lemma single_relation_slot_raises:
  "build_graph [[1, - 1]] [True] [[0]] [False] [(0, 0)] = Inl DGLError"
  "build_graph [[1, - 1]] [True] [[0]] [True] [(0, 0)] = Inl IndexError"
  by (simp_all add: build_graph_def bool_index_def numpy_index_def set_ndata_def add_nodes_def
      DGLGraph_def add_edges_def valid_node_def set_edata_def number_of_edges_def count_true_def)

text \<open>A loop whose body leaves the rows of a sample as they are.\<close>

lemma graphs_loop_pure:
  assumes "\<And>b k. (b, k) \<in> set bks \<Longrightarrow>
             b < length om \<and> b < length r \<and> b < length rm \<and> b < length pairs \<and> b < length ob \<and>
             body b k (ob ! b) (om ! b) (r ! b) (rm ! b) (pairs ! b) = Inr (G b, ob ! b, om ! b)"
  shows "graphs_loop body r rm pairs bks (gs, ob, om) = Inr (gs @ map (\<lambda>(b, k). G b) bks, ob, om)"
  using assms
proof (induction bks arbitrary: gs)
  case Nil
  then show ?case by simp
next
  case (Cons bk bks)
  obtain b k where bk: "bk = (b, k)" by (cases bk)
  have h: "b < length om \<and> b < length r \<and> b < length rm \<and> b < length pairs \<and> b < length ob \<and>
             body b k (ob ! b) (om ! b) (r ! b) (rm ! b) (pairs ! b) = Inr (G b, ob ! b, om ! b)"
    using Cons.prems[of b k] bk by simp
  have rest: "graphs_loop body r rm pairs bks (gs @ [G b], ob, om)
                = Inr ((gs @ [G b]) @ map (\<lambda>(b, k). G b) bks, ob, om)"
    by (rule Cons.IH) (use Cons.prems in auto)
  show ?case using h rest by (simp add: bk)
qed

section \<open>Claim C6: the identity graph has the masked-in objects and relations\<close>

text \<open>
  C6. For a batch whose samples are well formed (the masks and the pair list have one
  entry per slot, the masked-in pairs name nodes of the graph, and there are at least
  two relation slots), graph building with augmentation code 0
  returns, for every sample \<open>i\<close> (and every beam \<open>k\<close>), a graph whose node count is the
  number of true entries of \<open>om[i]\<close>, whose edge count is the number of true entries of
  \<open>rm[i]\<close>, whose node features \<open>F_n\<close> are the masked-in rows of \<open>o[i]\<close>, whose edge
  features \<open>F_e\<close> are the masked-in rows of \<open>r[i]\<close>, and whose edges are the masked-in
  index pairs, in order. The tensors \<open>o\<close> and \<open>om\<close> are returned unchanged.
\<close>

theorem identity_graph_matches_masks:
  assumes shapes: "length om = length ob" "length r = length ob" "length rm = length ob"
                  "length pairs = length ob"
      and wf: "\<And>b. b < length ob \<Longrightarrow>
                 well_formed_sample (ob ! b) (om ! b) (r ! b) (rm ! b) (pairs ! b)"
  shows "\<exists>graphs.
           create_batched_graphs_augmented rnd ob om r rm pairs beam_size 0 pe pn pa
             = Inr (graphs, ob, om) \<and>
           length graphs = length ob * beam_size \<and>
           (\<forall>i<length ob. \<forall>k<beam_size.
              num_nodes (graphs ! (i * beam_size + k)) = count_true (om ! i) \<and>
              number_of_edges (graphs ! (i * beam_size + k)) = count_true (rm ! i) \<and>
              ndata (graphs ! (i * beam_size + k)) ''F_n''
                = Some (floats (select (ob ! i) (om ! i))) \<and>
              edata (graphs ! (i * beam_size + k)) ''F_e''
                = Some (floats (select (r ! i) (rm ! i))) \<and>
              edge_list (graphs ! (i * beam_size + k))
                = map (\<lambda>(u, v). (nat u, nat v)) (select (pairs ! i) (rm ! i)))"
proof -
  define G :: "nat \<Rightarrow> float dgl_graph" where "G b = \<lparr>num_nodes = count_true (om ! b),
          edge_list = map (\<lambda>(u, v). (nat u, nat v)) (select (pairs ! b) (rm ! b)),
          ndata = [''F_n'' \<mapsto> floats (select (ob ! b) (om ! b))],
          edata = [''F_e'' \<mapsto> floats (select (r ! b) (rm ! b))],
          batch_num_nodes = [count_true (om ! b)],
          batch_num_edges = [count_true (rm ! b)]\<rparr>" for b
  let ?bks = "List.product [0..<length ob] [0..<beam_size]"
  have body: "identical_body (ob ! b) (om ! b) (r ! b) (rm ! b) (pairs ! b) = Inr (G b, ob ! b, om ! b)"
    if "b < length ob" for b
    using wf[OF that] unfolding G_def well_formed_sample_def
    by (intro identical_body_ok) auto
  have loop: "graphs_loop (\<lambda>b k. identical_body) r rm pairs ?bks ([], ob, om)
                = Inr ([] @ map (\<lambda>(b, k). G b) ?bks, ob, om)"
    by (rule graphs_loop_pure) (use shapes body in auto)
  have run: "create_batched_graphs_augmented rnd ob om r rm pairs beam_size 0 pe pn pa
               = Inr (map (\<lambda>(b, k). G b) ?bks, ob, om)"
    using loop by (simp add: create_batched_graphs_augmented_def)
  have nth: "map (\<lambda>(b, k). G b) ?bks ! (i * beam_size + k) = G i"
    if "i < length ob" "k < beam_size" for i k
  proof -
    have lt: "i * beam_size + k < length ob * beam_size"
    proof -
      have "i * beam_size + k < i * beam_size + beam_size" using that by simp
      also have "\<dots> = Suc i * beam_size" by simp
      also have "\<dots> \<le> length ob * beam_size" using that by (intro mult_le_mono1) simp
      finally show ?thesis .
    qed
    then have "?bks ! (i * beam_size + k) = (i, k)"
      using that by (simp add: product_nth)
    then show ?thesis using lt by simp
  qed
  have len: "count_true (rm ! i) = length (select (pairs ! i) (rm ! i))" if "i < length ob" for i
    using wf[OF that] by (simp add: well_formed_sample_def length_select)
  show ?thesis
    apply (rule exI[of _ "map (\<lambda>(b, k). G b) ?bks"])
    using run nth len by (simp add: G_def number_of_edges_def)
qed

theorem identity_graph_matches_masks_witness:
  "\<exists>graphs.
     create_batched_graphs_augmented (\<lambda>_. 0)
       [[[1, 2], [3, 4]], [[5, 6], [0, 0]]] [[True, True], [True, False]]
       [[[7], [0]], [[0], [0]]] [[True, False], [False, False]]
       [[(0, 1), (0, 0)], [(0, 0), (0, 0)]] 1 0 0 0 0
       = Inr (graphs, [[[1, 2], [3, 4]], [[5, 6], [0, 0]]], [[True, True], [True, False]]) \<and>
     length graphs = 2 \<and>
     num_nodes (graphs ! 0) = 2 \<and> number_of_edges (graphs ! 0) = 1 \<and>
     ndata (graphs ! 0) ''F_n'' = Some [[Value 1, Value 2], [Value 3, Value 4]] \<and>
     edata (graphs ! 0) ''F_e'' = Some [[Value 7]] \<and>
     edge_list (graphs ! 0) = [(0, 1)] \<and>
     num_nodes (graphs ! 1) = 1 \<and> number_of_edges (graphs ! 1) = 0 \<and>
     ndata (graphs ! 1) ''F_n'' = Some [[Value 5, Value 6]]"
proof -
  let ?ob = "[[[1, 2], [3, 4]], [[5, 6], [0, 0]]] :: mat list"
  let ?om = "[[True, True], [True, False]]"
  let ?r = "[[[7], [0]], [[0], [0]]] :: mat list"
  let ?rm = "[[True, False], [False, False]]"
  let ?pairs = "[[(0, 1), (0, 0)], [(0, 0), (0, 0)]] :: (int \<times> int) list list"
  have wf: "well_formed_sample (?ob ! b) (?om ! b) (?r ! b) (?rm ! b) (?pairs ! b)"
    if "b < length ?ob" for b
  proof -
    from that have "b = 0 \<or> b = 1" by auto
    then show ?thesis
      by (auto simp: well_formed_sample_def valid_pairs_def select_def count_true_def)
  qed
  from identity_graph_matches_masks[of ?om ?ob ?r ?rm ?pairs "\<lambda>_. 0" 1 0 0 0, OF _ _ _ _ wf]
  obtain graphs where run:
      "create_batched_graphs_augmented (\<lambda>_. 0) ?ob ?om ?r ?rm ?pairs 1 0 0 0 0 = Inr (graphs, ?ob, ?om)"
    and len: "length graphs = length ?ob * 1"
    and each: "\<forall>i<length ?ob. \<forall>k<1.
              num_nodes (graphs ! (i * 1 + k)) = count_true (?om ! i) \<and>
              number_of_edges (graphs ! (i * 1 + k)) = count_true (?rm ! i) \<and>
              ndata (graphs ! (i * 1 + k)) ''F_n'' = Some (floats (select (?ob ! i) (?om ! i))) \<and>
              edata (graphs ! (i * 1 + k)) ''F_e'' = Some (floats (select (?r ! i) (?rm ! i))) \<and>
              edge_list (graphs ! (i * 1 + k))
                = map (\<lambda>(u, v). (nat u, nat v)) (select (?pairs ! i) (?rm ! i))"
    by auto
  from each[rule_format, of 0 0] each[rule_format, of 1 0] run len
  show ?thesis
    by (intro exI[of _ graphs]) (simp add: count_true_def select_def)
qed

section \<open>Claim C9: configuration errors\<close>

text \<open>
  C9. Constructing a \<^verbatim>\<open>ContextGAT\<close> with \<open>use_obj_info\<close> and \<open>use_rel_info\<close> both
  false fails with the assertion error, whatever the other arguments; and the graph
  builder called with an augmentation code below 0 or above 5 raises \<open>ValueError\<close>,
  whatever the batch: the result is the error alone, no graph list is returned.
\<close>

theorem configuration_errors_fail_fast:
  "ContextGAT_init proj score engine False False k_steps upd_relations = Inl AssertionError \<and>
   (\<forall>aug. aug < 0 \<or> 5 < aug \<longrightarrow>
      create_batched_graphs_augmented rnd ob om r rm pairs beam_size aug pe pn pa
        = Inl ValueError)"
  by (simp add: ContextGAT_init_def create_batched_graphs_augmented_def)

theorem configuration_errors_fail_fast_witness:
  "ContextGAT_init (\<lambda>v. v) (\<lambda>v. v) Inr False False 1 False = Inl AssertionError \<and>
   create_batched_graphs_augmented (\<lambda>_. 0) [[[1]]] [[True]] [[[1]]] [[False]] [[(0, 0)]] 1 6
     (1 / 5) (1 / 5) (1 / 5) = Inl ValueError \<and>
   create_batched_graphs_augmented (\<lambda>_. 0) [] [] [] [] [] 1 (- 1) (1 / 5) (1 / 5) (1 / 5)
     = Inl ValueError"
  using configuration_errors_fail_fast[of "\<lambda>v. v" "\<lambda>v. v" Inr 1 False "\<lambda>_. 0"
          "[[[1]]]" "[[True]]" "[[[1]]]" "[[False]]" "[[(0, 0)]]" 1 "1 / 5" "1 / 5" "1 / 5"]
        configuration_errors_fail_fast[of "\<lambda>v. v" "\<lambda>v. v" Inr 1 False "\<lambda>_. 0"
          "[]" "[]" "[]" "[]" "[]" 1 "1 / 5" "1 / 5" "1 / 5"]
  by simp

lemma count_true_update:
  "n < length m \<Longrightarrow> \<not> m ! n \<Longrightarrow> count_true (m[n := True]) = Suc (count_true m)"
proof (induction m arbitrary: n)
  case Nil then show ?case by simp
next
  case (Cons b bs)
  show ?case
  proof (cases n)
    case 0 with Cons.prems show ?thesis by (simp add: count_true_def)
  next
    case (Suc k)
    with Cons.prems have "count_true (bs[k := True]) = Suc (count_true bs)"
      by (intro Cons.IH) auto
    with Suc show ?thesis by (simp add: count_true_def)
  qed
qed

lemma length_sum0: "length (sum0 m) = ncols m"
  by (simp add: sum0_def)

lemma valid_pairs_mono: "valid_pairs n ps \<Longrightarrow> n \<le> n' \<Longrightarrow> valid_pairs n' ps"
  by (induction ps) (auto simp: valid_pairs_def)

lemma list_all_valid_upt: "n \<le> num_nodes g \<Longrightarrow> list_all (valid_node g) (map int [0..<n])"
  by (simp add: list_all_iff valid_node_def)

lemma map_nat_int: "map (nat \<circ> int) xs = xs"
  by (induction xs) auto

lemma global_node_body_full:
  assumes "well_formed_sample o_b om_b r_b rm_b pairs_b" "count_true om_b = 100"
  shows "global_node_body o_b om_b r_b rm_b pairs_b
           = ebind (build_graph o_b om_b r_b rm_b pairs_b) (\<lambda>graph. Inr (graph, o_b, om_b))"
  using assms by (simp add: global_node_body_def)

lemma nan_mean0_width:
  assumes "r_b \<noteq> []" "list_all (\<lambda>row. length row = w) r_b"
  shows "length (nan_mean0 (ncols r_b) (select r_b m)) = w"
proof (cases "select r_b m")
  case Nil
  from assms obtain row rest where "r_b = row # rest" by (cases r_b) auto
  with assms(2) Nil show ?thesis by (simp add: nan_mean0_def mean0_def)
next
  case (Cons row rest)
  have "row \<in> set r_b" using set_select[of r_b m] Cons by auto
  with assms(2) have "length row = w" by (simp add: list_all_iff)
  with Cons show ?thesis by (simp add: nan_mean0_def mean0_def length_sum0)
qed

lemma global_node_body_insert:
  assumes wf: "well_formed_sample o_b om_b r_b rm_b pairs_b"
      and n: "count_true om_b \<noteq> 100" "0 < count_true om_b" "count_true om_b < length om_b"
             "\<not> om_b ! count_true om_b"
      and w: "list_all (\<lambda>row. length row = 512) r_b"
  shows "\<exists>m o_b'.
           mean0 (select o_b om_b) = Inr m \<and>
           global_node_body o_b om_b r_b rm_b pairs_b =
             Inr (\<lparr>num_nodes = Suc (count_true om_b),
                   edge_list = map (\<lambda>(u, v). (nat u, nat v)) (select pairs_b rm_b)
                     @ zip [0..<count_true om_b] (replicate (count_true om_b) (count_true om_b))
                     @ zip (replicate (count_true om_b) (count_true om_b)) [0..<count_true om_b],
                   ndata = [''F_n'' \<mapsto> floats (select o_b om_b @ [m])],
                   edata = [''F_e'' \<mapsto> floats (select r_b rm_b)
                              @ replicate (2 * count_true om_b)
                                  (nan_mean0 (ncols r_b) (select r_b rm_b))],
                   batch_num_nodes = [Suc (count_true om_b)],
                   batch_num_edges = [count_true rm_b + 2 * count_true om_b]\<rparr>,
                  o_b', om_b[count_true om_b := True])"
proof -
  let ?n = "count_true om_b"
  let ?e = "nan_mean0 (ncols r_b) (select r_b rm_b)"
  have len: "length om_b = length o_b" "length rm_b = length r_b" "length pairs_b = length rm_b"
    and vp: "valid_pairs ?n (select pairs_b rm_b)" and slots: "length rm_b \<noteq> 1"
    and ne: "r_b \<noteq> []"
    using wf by (auto simp: well_formed_sample_def)
  note k = ne w
  have Fn_ne: "select o_b om_b \<noteq> []" using n(2) length_select[OF len(1)] by auto
  define m where "m = map (\<lambda>s. s / real (length (select o_b om_b))) (sum0 (select o_b om_b))"
  have m: "mean0 (select o_b om_b) = Inr m" using Fn_ne by (simp add: mean0_def m_def)
  have nm: "nan_mean0 (ncols o_b) (select o_b om_b) = map Value m"
    by (simp add: nan_mean0_def m)
  have le: "length ?e = 512" by (rule nan_mean0_width[OF k])
  have cat_n: "cat0 (floats (select o_b om_b)) [map Value m] = Inr (floats (select o_b om_b @ [m]))"
    by (simp add: cat0_def m_def length_sum0)
  have cat_e: "cat0 (floats (select r_b rm_b)) (replicate (2 * ?n) ?e)
                 = Inr (floats (select r_b rm_b) @ replicate (2 * ?n) ?e)"
  proof (cases "select r_b rm_b")
    case Nil
    then show ?thesis by (simp add: cat0_def)
  next
    case (Cons row rest)
    have "row \<in> set r_b" using set_select[of r_b rm_b] Cons by auto
    with k(2) have "length row = 512" by (simp add: list_all_iff)
    with Cons le n(2) show ?thesis by (cases "?n") (simp_all add: cat0_def)
  qed
  have vp1: "list_all (\<lambda>i. 0 \<le> i \<and> i < 1 + int ?n) (map fst (select pairs_b rm_b))"
            "list_all (\<lambda>i. 0 \<le> i \<and> i < 1 + int ?n) (map snd (select pairs_b rm_b))"
    using valid_pairs_fst[OF valid_pairs_mono[OF vp, of "Suc ?n"]]
          valid_pairs_snd[OF valid_pairs_mono[OF vp, of "Suc ?n"]] by (simp_all add: add.commute)
  have put: "\<exists>o_b'. bool_index_put o_b (om_b[?n := True]) (select o_b om_b @ [m]) = Inr o_b'"
    using len(1) n count_true_update[OF n(3) n(4)] length_select[OF len(1)]
    by (simp add: bool_index_put_def)
  then obtain o_b' where put': "bool_index_put o_b (om_b[?n := True]) (select o_b om_b @ [m]) = Inr o_b'" ..
  have "global_node_body o_b om_b r_b rm_b pairs_b =
             Inr (\<lparr>num_nodes = Suc ?n,
                   edge_list = map (\<lambda>(u, v). (nat u, nat v)) (select pairs_b rm_b)
                     @ zip [0..<?n] (replicate ?n ?n) @ zip (replicate ?n ?n) [0..<?n],
                   ndata = [''F_n'' \<mapsto> floats (select o_b om_b @ [m])],
                   edata = [''F_e'' \<mapsto> floats (select r_b rm_b) @ replicate (2 * ?n) ?e],
                   batch_num_nodes = [Suc ?n],
                   batch_num_edges = [count_true rm_b + 2 * ?n]\<rparr>,
                  o_b', om_b[?n := True])"
    using n(1,3) len slots vp1 nm cat_n cat_e put' le
    by (simp add: global_node_body_def bool_index_select numpy_index_mask length_select
      set_ndata_def add_nodes_def DGLGraph_def add_edges_def valid_node_def[abs_def]
      number_of_edges_def set_edata_def zip_fst_snd_nat set_item_def expand_def Let_def
      list_all_iff mult.commute map_nat_int reals_floats del: floats_simps(2))
  with m show ?thesis by blast
qed

lemma graphs_loop_rows:
  assumes "distinct (map fst bks)"
      and "\<And>b k. (b, k) \<in> set bks \<Longrightarrow>
             b < length om \<and> b < length r \<and> b < length rm \<and> b < length pairs \<and> b < length ob \<and>
             (\<exists>o' m'. body b k (ob ! b) (om ! b) (r ! b) (rm ! b) (pairs ! b) = Inr (G b, o', m'))"
  shows "\<exists>ob' om'. graphs_loop body r rm pairs bks (gs, ob, om)
                      = Inr (gs @ map (\<lambda>(b, k). G b) bks, ob', om')"
  using assms
proof (induction bks arbitrary: gs ob om)
  case Nil
  then show ?case by simp
next
  case (Cons bk bks)
  obtain b k where bk: "bk = (b, k)" by (cases bk)
  from Cons.prems(2)[of b k] bk obtain o' m' where
    h: "b < length om" "b < length r" "b < length rm" "b < length pairs" "b < length ob"
       "body b k (ob ! b) (om ! b) (r ! b) (rm ! b) (pairs ! b) = Inr (G b, o', m')"
    by auto
  have fresh: "b' \<noteq> b" if "(b', k') \<in> set bks" for b' k'
    using Cons.prems(1) that bk by (auto simp: image_iff)
  have "\<exists>ob' om'. graphs_loop body r rm pairs bks (gs @ [G b], ob[b := o'], om[b := m'])
                = Inr ((gs @ [G b]) @ map (\<lambda>(b, k). G b) bks, ob', om')"
  proof (rule Cons.IH)
    show "distinct (map fst bks)" using Cons.prems(1) by simp
  next
    fix b' k' assume mem: "(b', k') \<in> set bks"
    then have ne: "b' \<noteq> b" by (rule fresh)
    from Cons.prems(2)[of b' k'] mem ne
    show "b' < length (om[b := m']) \<and> b' < length r \<and> b' < length rm \<and> b' < length pairs \<and>
          b' < length (ob[b := o']) \<and>
          (\<exists>o'' m''. body b' k' (ob[b := o'] ! b') (om[b := m'] ! b') (r ! b') (rm ! b') (pairs ! b')
             = Inr (G b', o'', m''))"
      by simp
  qed
  then show ?case using h by (simp add: bk)
qed

lemma product_single: "List.product xs [y] = map (\<lambda>x. (x, y)) xs"
  by (induction xs) auto

section \<open>Claim C7: the global node\<close>

text \<open>
  C7. Let every sample of the batch be well formed and, unless it has exactly 100
  masked-in objects, have at least one masked-in object (without one the sample has
  no key for the object attention and no mean node feature), a free slot at index
  \<open>om[b].sum()\<close> (as every mask that marks the first \<open>n < 100\<close> of 100 slots has) and
  relation features of width 512. Then graph building with augmentation code 5 (one
  graph per sample) succeeds, and with \<open>g0\<close> the identity graph of sample \<open>i\<close> (what
  \<open>build_graph\<close> makes of it, with \<open>n\<close> nodes):
  when the sample has fewer than 100 masked-in objects, its graph has \<open>n + 1\<close> nodes,
  the node features of \<open>g0\<close> followed by their mean, the edges of \<open>g0\<close> followed by
  an edge from every original node to the new node \<open>n\<close> and an edge back
  (\<open>2 * n\<close> new edges), and the edge features of \<open>g0\<close> followed by \<open>2 * n\<close> copies
  of the mean relation feature, which is a row of NaN when the sample has no masked-in
  relation; when the sample has exactly 100 masked-in objects, its graph is \<open>g0\<close>.
\<close>

theorem global_node_graph:
  assumes shapes: "length om = length ob" "length r = length ob" "length rm = length ob"
                  "length pairs = length ob"
      and ready: "\<And>b. b < length ob \<Longrightarrow>
                 global_node_ready (ob ! b) (om ! b) (r ! b) (rm ! b) (pairs ! b)"
  shows "\<exists>graphs ob' om'.
           create_batched_graphs_augmented rnd ob om r rm pairs 1 5 pe pn pa
             = Inr (graphs, ob', om') \<and>
           length graphs = length ob \<and>
           (\<forall>i<length ob. \<exists>g0 F0 E0.
              build_graph (ob ! i) (om ! i) (r ! i) (rm ! i) (pairs ! i) = Inr g0 \<and>
              num_nodes g0 = count_true (om ! i) \<and>
              number_of_edges g0 = count_true (rm ! i) \<and>
              ndata g0 ''F_n'' = Some (floats F0) \<and> edata g0 ''F_e'' = Some (floats E0) \<and>
              (count_true (om ! i) = 100 \<longrightarrow> graphs ! i = g0) \<and>
              (count_true (om ! i) < 100 \<longrightarrow>
                 (\<exists>m. mean0 F0 = Inr m \<and>
                    num_nodes (graphs ! i) = num_nodes g0 + 1 \<and>
                    ndata (graphs ! i) ''F_n'' = Some (floats (F0 @ [m])) \<and>
                    edge_list (graphs ! i) = edge_list g0
                      @ zip [0..<num_nodes g0] (replicate (num_nodes g0) (num_nodes g0))
                      @ zip (replicate (num_nodes g0) (num_nodes g0)) [0..<num_nodes g0] \<and>
                    number_of_edges (graphs ! i) = number_of_edges g0 + 2 * num_nodes g0 \<and>
                    edata (graphs ! i) ''F_e''
                      = Some (floats E0 @ replicate (2 * num_nodes g0) (nan_mean0 512 E0)))))"
proof -
  define g0 :: "nat \<Rightarrow> float dgl_graph" where "g0 b = \<lparr>num_nodes = count_true (om ! b),
          edge_list = map (\<lambda>(u, v). (nat u, nat v)) (select (pairs ! b) (rm ! b)),
          ndata = [''F_n'' \<mapsto> floats (select (ob ! b) (om ! b))],
          edata = [''F_e'' \<mapsto> floats (select (r ! b) (rm ! b))],
          batch_num_nodes = [count_true (om ! b)],
          batch_num_edges = [count_true (rm ! b)]\<rparr>" for b
  have wf: "well_formed_sample (ob ! b) (om ! b) (r ! b) (rm ! b) (pairs ! b)" if "b < length ob" for b
    using ready[OF that] by (simp add: global_node_ready_def)
  have id: "build_graph (ob ! b) (om ! b) (r ! b) (rm ! b) (pairs ! b) = Inr (g0 b)"
    if "b < length ob" for b
    using wf[OF that] unfolding g0_def well_formed_sample_def by (intro build_graph_ok) auto
  have width: "ncols (r ! b) = 512"
    if "b < length ob" "count_true (om ! b) \<noteq> 100" for b
    using ready[OF that(1)] that(2)
    by (cases "r ! b") (auto simp: global_node_ready_def well_formed_sample_def)
  have ins: "\<exists>m o_b'.
           mean0 (select (ob ! b) (om ! b)) = Inr m \<and>
           global_node_body (ob ! b) (om ! b) (r ! b) (rm ! b) (pairs ! b) =
             Inr ((g0 b)\<lparr>num_nodes := Suc (num_nodes (g0 b)),
                   edge_list := edge_list (g0 b)
                     @ zip [0..<num_nodes (g0 b)] (replicate (num_nodes (g0 b)) (num_nodes (g0 b)))
                     @ zip (replicate (num_nodes (g0 b)) (num_nodes (g0 b))) [0..<num_nodes (g0 b)],
                   ndata := [''F_n'' \<mapsto> floats (select (ob ! b) (om ! b) @ [m])],
                   edata := [''F_e'' \<mapsto> floats (select (r ! b) (rm ! b))
                               @ replicate (2 * num_nodes (g0 b))
                                   (nan_mean0 512 (select (r ! b) (rm ! b)))],
                   batch_num_nodes := [Suc (num_nodes (g0 b))],
                   batch_num_edges := [count_true (rm ! b) + 2 * num_nodes (g0 b)]\<rparr>,
                  o_b', (om ! b)[count_true (om ! b) := True])"
    if "b < length ob" "count_true (om ! b) \<noteq> 100" for b
    using global_node_body_insert[OF wf[OF that(1)] that(2)] ready[OF that(1)] that(2)
          width[OF that]
    by (simp add: global_node_ready_def g0_def)
  define G where "G b = (if count_true (om ! b) = 100 then g0 b
       else (SOME g. \<exists>o' m'. global_node_body (ob ! b) (om ! b) (r ! b) (rm ! b) (pairs ! b)
                = Inr (g, o', m')))" for b
  have body: "\<exists>o' m'. global_node_body (ob ! b) (om ! b) (r ! b) (rm ! b) (pairs ! b) = Inr (G b, o', m')"
    if "b < length ob" for b
  proof (cases "count_true (om ! b) = 100")
    case True
    then show ?thesis
      using global_node_body_full[OF wf[OF that] True] id[OF that] by (simp add: G_def)
  next
    case False
    from ins[OF that False] have "\<exists>g o' m'. global_node_body (ob ! b) (om ! b) (r ! b) (rm ! b) (pairs ! b)
                = Inr (g, o', m')" by blast
    then have "\<exists>o' m'. global_node_body (ob ! b) (om ! b) (r ! b) (rm ! b) (pairs ! b)
                = Inr (SOME g. \<exists>o' m'. global_node_body (ob ! b) (om ! b) (r ! b) (rm ! b) (pairs ! b)
                = Inr (g, o', m'), o', m')" by (rule someI_ex)
    with False show ?thesis by (simp add: G_def)
  qed
  let ?bks = "List.product [0..<length ob] [0..<1]"
  have bks: "?bks = map (\<lambda>b. (b, 0)) [0..<length ob]" by (simp add: product_single)
  have "\<exists>ob' om'. graphs_loop (\<lambda>b k. global_node_body) r rm pairs ?bks ([], ob, om)
                = Inr ([] @ map (\<lambda>(b, k). G b) ?bks, ob', om')"
  proof (rule graphs_loop_rows)
    show "distinct (map fst ?bks)" unfolding bks by (simp add: comp_def)
  qed (use shapes body in auto)
  then obtain ob' om' where run:
    "create_batched_graphs_augmented rnd ob om r rm pairs 1 5 pe pn pa
       = Inr (map G [0..<length ob], ob', om')"
    unfolding bks by (auto simp: create_batched_graphs_augmented_def product_single comp_def)
  have cnt: "count_true (rm ! i) = length (select (pairs ! i) (rm ! i))" if "i < length ob" for i
    using wf[OF that] by (simp add: well_formed_sample_def length_select)
  have each: "\<exists>g0 F0 E0.
              build_graph (ob ! i) (om ! i) (r ! i) (rm ! i) (pairs ! i) = Inr g0 \<and>
              num_nodes g0 = count_true (om ! i) \<and>
              number_of_edges g0 = count_true (rm ! i) \<and>
              ndata g0 ''F_n'' = Some (floats F0) \<and> edata g0 ''F_e'' = Some (floats E0) \<and>
              (count_true (om ! i) = 100 \<longrightarrow> G i = g0) \<and>
              (count_true (om ! i) < 100 \<longrightarrow>
                 (\<exists>m. mean0 F0 = Inr m \<and>
                    num_nodes (G i) = num_nodes g0 + 1 \<and>
                    ndata (G i) ''F_n'' = Some (floats (F0 @ [m])) \<and>
                    edge_list (G i) = edge_list g0
                      @ zip [0..<num_nodes g0] (replicate (num_nodes g0) (num_nodes g0))
                      @ zip (replicate (num_nodes g0) (num_nodes g0)) [0..<num_nodes g0] \<and>
                    number_of_edges (G i) = number_of_edges g0 + 2 * num_nodes g0 \<and>
                    edata (G i) ''F_e''
                      = Some (floats E0 @ replicate (2 * num_nodes g0) (nan_mean0 512 E0))))"
    if i: "i < length ob" for i
  proof (cases "count_true (om ! i) = 100")
    case True
    show ?thesis
      apply (rule exI[of _ "g0 i"])
      apply (rule exI[of _ "select (ob ! i) (om ! i)"])
      apply (rule exI[of _ "select (r ! i) (rm ! i)"])
      using id[OF i] True cnt[OF i] by (simp add: G_def number_of_edges_def) (simp add: g0_def)
  next
    case False
    from ins[OF i False] obtain m o_b' where
      m: "mean0 (select (ob ! i) (om ! i)) = Inr m"
      and gb: "global_node_body (ob ! i) (om ! i) (r ! i) (rm ! i) (pairs ! i) =
             Inr ((g0 i)\<lparr>num_nodes := Suc (num_nodes (g0 i)),
                   edge_list := edge_list (g0 i)
                     @ zip [0..<num_nodes (g0 i)] (replicate (num_nodes (g0 i)) (num_nodes (g0 i)))
                     @ zip (replicate (num_nodes (g0 i)) (num_nodes (g0 i))) [0..<num_nodes (g0 i)],
                   ndata := [''F_n'' \<mapsto> floats (select (ob ! i) (om ! i) @ [m])],
                   edata := [''F_e'' \<mapsto> floats (select (r ! i) (rm ! i))
                               @ replicate (2 * num_nodes (g0 i))
                                   (nan_mean0 512 (select (r ! i) (rm ! i)))],
                   batch_num_nodes := [Suc (num_nodes (g0 i))],
                   batch_num_edges := [count_true (rm ! i) + 2 * num_nodes (g0 i)]\<rparr>,
                  o_b', (om ! i)[count_true (om ! i) := True])"
      by blast
    from body[OF i] gb have Gi: "G i = (g0 i)\<lparr>num_nodes := Suc (num_nodes (g0 i)),
                   edge_list := edge_list (g0 i)
                     @ zip [0..<num_nodes (g0 i)] (replicate (num_nodes (g0 i)) (num_nodes (g0 i)))
                     @ zip (replicate (num_nodes (g0 i)) (num_nodes (g0 i))) [0..<num_nodes (g0 i)],
                   ndata := [''F_n'' \<mapsto> floats (select (ob ! i) (om ! i) @ [m])],
                   edata := [''F_e'' \<mapsto> floats (select (r ! i) (rm ! i))
                               @ replicate (2 * num_nodes (g0 i))
                                   (nan_mean0 512 (select (r ! i) (rm ! i)))],
                   batch_num_nodes := [Suc (num_nodes (g0 i))],
                   batch_num_edges := [count_true (rm ! i) + 2 * num_nodes (g0 i)]\<rparr>"
      by auto
    show ?thesis
      apply (rule exI[of _ "g0 i"])
      apply (rule exI[of _ "select (ob ! i) (om ! i)"])
      apply (rule exI[of _ "select (r ! i) (rm ! i)"])
      using id[OF i] False m cnt[OF i]
      by (simp add: Gi number_of_edges_def del: floats_simps(2)) (simp add: g0_def)
  qed
  show ?thesis
    apply (rule exI[of _ "map G [0..<length ob]"])
    apply (rule exI[of _ ob'])
    apply (rule exI[of _ om'])
    using run each by simp
qed

text \<open>
  A batch of three samples of 100 slots: two objects and one relation; two objects and
  no relation, where the four new edges carry NaN; and 100 objects, where nothing is
  inserted.
\<close>

theorem global_node_graph_witness:
  "\<exists>graphs ob' om'.
     create_batched_graphs_augmented (\<lambda>_. 0)
       [[1, 2] # [3, 4] # replicate 98 [0, 0], [1, 2] # [3, 4] # replicate 98 [0, 0],
        replicate 100 [1, 1]]
       [True # True # replicate 98 False, True # True # replicate 98 False, replicate 100 True]
       [replicate 512 2 # replicate 99 (replicate 512 0), replicate 100 (replicate 512 0),
        replicate 100 (replicate 512 0)]
       [True # replicate 99 False, replicate 100 False, replicate 100 False]
       [(0, 1) # replicate 99 (0, 0), replicate 100 (0, 0), replicate 100 (0, 0)] 1 5 0 0 0
       = Inr (graphs, ob', om') \<and>
     num_nodes (graphs ! 0) = 3 \<and>
     ndata (graphs ! 0) ''F_n'' = Some (floats [[1, 2], [3, 4], [2, 3]]) \<and>
     edge_list (graphs ! 0) = [(0, 1), (0, 2), (1, 2), (2, 0), (2, 1)] \<and>
     edata (graphs ! 0) ''F_e'' = Some (replicate 5 (replicate 512 (Value 2))) \<and>
     num_nodes (graphs ! 1) = 3 \<and>
     ndata (graphs ! 1) ''F_n'' = Some (floats [[1, 2], [3, 4], [2, 3]]) \<and>
     edge_list (graphs ! 1) = [(0, 2), (1, 2), (2, 0), (2, 1)] \<and>
     edata (graphs ! 1) ''F_e'' = Some (replicate 4 (replicate 512 NaN)) \<and>
     num_nodes (graphs ! 2) = 100 \<and> number_of_edges (graphs ! 2) = 0 \<and>
     ndata (graphs ! 2) ''F_n'' = Some (floats (replicate 100 [1, 1]))"
proof -
  let ?ob = "[[1, 2] # [3, 4] # replicate 98 [0, 0], [1, 2] # [3, 4] # replicate 98 [0, 0],
              replicate 100 [1, 1]] :: mat list"
  let ?om = "[True # True # replicate 98 False, True # True # replicate 98 False,
              replicate 100 True]"
  let ?r = "[replicate 512 2 # replicate 99 (replicate 512 0), replicate 100 (replicate 512 0),
             replicate 100 (replicate 512 0)] :: mat list"
  let ?rm = "[True # replicate 99 False, replicate 100 False, replicate 100 False]"
  let ?pairs = "[(0, 1) # replicate 99 (0, 0), replicate 100 (0, 0), replicate 100 (0, 0)]
                :: (int \<times> int) list list"
  have c0: "count_true (True # True # replicate 98 False) = 2" "count_true (replicate 100 True) = 100"
           "count_true (True # replicate 99 False) = 1" "count_true (replicate 100 False) = 0"
    by (simp_all add: count_true_def)
  have s0: "select ([1, 2] # [3, 4] # replicate 98 [0, 0]) (True # True # replicate 98 False) = [[1, 2], [3, 4::real]]"
           "select (replicate 100 [1, 1::real]) (replicate 100 True) = replicate 100 [1, 1]"
           "select (replicate 512 2 # replicate 99 (replicate 512 (0::real))) (True # replicate 99 False) = [replicate 512 2]"
           "select (replicate 100 (replicate 512 (0::real))) (replicate 100 False) = []"
           "select ((0, 1) # replicate 99 (0, 0::int)) (True # replicate 99 False) = [(0::int, 1)]"
           "select (replicate 100 (0::int, 0::int)) (replicate 100 False) = []"
    by (simp_all add: select_def)
  have ready: "global_node_ready (?ob ! b) (?om ! b) (?r ! b) (?rm ! b) (?pairs ! b)"
    if "b < length ?ob" for b
  proof -
    from that have "b = 0 \<or> b = 1 \<or> b = 2" by auto
    then show ?thesis
      by (auto simp: global_node_ready_def well_formed_sample_def valid_pairs_def c0 s0
          list_all_iff)
  qed
  from global_node_graph[of ?om ?ob ?r ?rm ?pairs "\<lambda>_. 0" 0 0 0, OF _ _ _ _ ready]
  obtain graphs ob' om' where run:
      "create_batched_graphs_augmented (\<lambda>_. 0) ?ob ?om ?r ?rm ?pairs 1 5 0 0 0 = Inr (graphs, ob', om')"
    and each: "\<forall>i<length ?ob. \<exists>g0 F0 E0.
              build_graph (?ob ! i) (?om ! i) (?r ! i) (?rm ! i) (?pairs ! i) = Inr g0 \<and>
              num_nodes g0 = count_true (?om ! i) \<and>
              number_of_edges g0 = count_true (?rm ! i) \<and>
              ndata g0 ''F_n'' = Some (floats F0) \<and> edata g0 ''F_e'' = Some (floats E0) \<and>
              (count_true (?om ! i) = 100 \<longrightarrow> graphs ! i = g0) \<and>
              (count_true (?om ! i) < 100 \<longrightarrow>
                 (\<exists>m. mean0 F0 = Inr m \<and>
                    num_nodes (graphs ! i) = num_nodes g0 + 1 \<and>
                    ndata (graphs ! i) ''F_n'' = Some (floats (F0 @ [m])) \<and>
                    edge_list (graphs ! i) = edge_list g0
                      @ zip [0..<num_nodes g0] (replicate (num_nodes g0) (num_nodes g0))
                      @ zip (replicate (num_nodes g0) (num_nodes g0)) [0..<num_nodes g0] \<and>
                    number_of_edges (graphs ! i) = number_of_edges g0 + 2 * num_nodes g0 \<and>
                    edata (graphs ! i) ''F_e''
                      = Some (floats E0 @ replicate (2 * num_nodes g0) (nan_mean0 512 E0))))"
    by auto
  have wf: "well_formed_sample (?ob ! b) (?om ! b) (?r ! b) (?rm ! b) (?pairs ! b)" if "b < length ?ob" for b
    using ready[OF that] by (simp add: global_node_ready_def)
  have inj: "floats a = floats b \<Longrightarrow> a = b" for a b
    by (simp add: floats_def inj_map_eq_map inj_on_def)
  have g0: "build_graph (?ob ! 0) (?om ! 0) (?r ! 0) (?rm ! 0) (?pairs ! 0) =
     Inr \<lparr>num_nodes = 2, edge_list = [(0, 1)], ndata = [''F_n'' \<mapsto> floats [[1, 2], [3, 4]]],
          edata = [''F_e'' \<mapsto> floats [replicate 512 2]], batch_num_nodes = [2], batch_num_edges = [1]\<rparr>"
    using wf[of 0] by (subst build_graph_ok) (auto simp: well_formed_sample_def c0 s0)
  have g1: "build_graph (?ob ! 1) (?om ! 1) (?r ! 1) (?rm ! 1) (?pairs ! 1) =
     Inr \<lparr>num_nodes = 2, edge_list = [], ndata = [''F_n'' \<mapsto> floats [[1, 2], [3, 4]]],
          edata = [''F_e'' \<mapsto> floats []], batch_num_nodes = [2], batch_num_edges = [0]\<rparr>"
    using wf[of 1] by (subst build_graph_ok) (auto simp: well_formed_sample_def c0 s0)
  have g2: "build_graph (?ob ! 2) (?om ! 2) (?r ! 2) (?rm ! 2) (?pairs ! 2) =
     Inr \<lparr>num_nodes = 100, edge_list = [], ndata = [''F_n'' \<mapsto> floats (replicate 100 [1, 1])],
          edata = [''F_e'' \<mapsto> floats []], batch_num_nodes = [100], batch_num_edges = [0]\<rparr>"
    using wf[of 2] by (subst build_graph_ok) (auto simp: well_formed_sample_def c0 s0)
  have m: "mean0 [[1, 2], [3, 4]] = Inr [2, 3]"
    by (simp add: mean0_def sum0_def ncols_def upt_rec)
  have e: "nan_mean0 512 [replicate 512 2] = replicate 512 (Value 2)"
          "nan_mean0 512 [] = replicate 512 NaN"
    by (simp_all add: nan_mean0_def mean0_def sum0_def ncols_def map_replicate_trivial[symmetric])
  have up: "[0..<2] = [0, Suc 0]" by (simp add: upt_rec)
  have r4: "replicate 4 x = [x, x, x, x]" "replicate 5 x = [x, x, x, x, x]" for x :: "float list"
    by (simp_all add: numeral_eq_Suc)
  from each[rule_format, of 0] obtain h0 F0 E0 m0 where first0:
      "Inr (\<lparr>num_nodes = 2, edge_list = [(0, 1)], ndata = [''F_n'' \<mapsto> floats [[1, 2], [3, 4]]],
          edata = [''F_e'' \<mapsto> floats [replicate 512 2]], batch_num_nodes = [2],
          batch_num_edges = [1]\<rparr> :: float dgl_graph) = (Inr h0 :: error + float dgl_graph)"
      "ndata h0 ''F_n'' = Some (floats F0)" "edata h0 ''F_e'' = Some (floats E0)"
      "mean0 F0 = Inr m0"
      "num_nodes (graphs ! 0) = num_nodes h0 + 1"
      "ndata (graphs ! 0) ''F_n'' = Some (floats (F0 @ [m0]))"
      "edge_list (graphs ! 0) = edge_list h0
                      @ zip [0..<num_nodes h0] (replicate (num_nodes h0) (num_nodes h0))
                      @ zip (replicate (num_nodes h0) (num_nodes h0)) [0..<num_nodes h0]"
      "edata (graphs ! 0) ''F_e''
                      = Some (floats E0 @ replicate (2 * num_nodes h0) (nan_mean0 512 E0))"
    unfolding g0[symmetric] by (auto simp: c0)
  from first0(1) have h0: "h0 = \<lparr>num_nodes = 2, edge_list = [(0, 1)],
          ndata = [''F_n'' \<mapsto> floats [[1, 2], [3, 4]]],
          edata = [''F_e'' \<mapsto> floats [replicate 512 2]], batch_num_nodes = [2],
          batch_num_edges = [1]\<rparr>" by simp
  from first0(2,3) have fl0: "floats F0 = floats [[1, 2], [3, 4]]" "floats E0 = floats [replicate 512 2]"
    unfolding h0 by simp_all
  have FE0: "F0 = [[1, 2], [3, 4]]" "E0 = [replicate 512 2]"
    by (rule inj[OF fl0(1)], rule inj[OF fl0(2)])
  from first0(4-8) m have first:
    "num_nodes (graphs ! 0) = 3 \<and>
     ndata (graphs ! 0) ''F_n'' = Some (floats [[1, 2], [3, 4], [2, 3]]) \<and>
     edge_list (graphs ! 0) = [(0, 1), (0, 2), (1, 2), (2, 0), (2, 1)] \<and>
     edata (graphs ! 0) ''F_e'' = Some (replicate 5 (replicate 512 (Value 2)))"
    unfolding h0 FE0 by (simp add: up numeral_2_eq_2 r4 e floats_def)
  from each[rule_format, of 1] obtain h1 F1 E1 m1 where second0:
      "Inr (\<lparr>num_nodes = 2, edge_list = [], ndata = [''F_n'' \<mapsto> floats [[1, 2], [3, 4]]],
          edata = [''F_e'' \<mapsto> floats []], batch_num_nodes = [2],
          batch_num_edges = [0]\<rparr> :: float dgl_graph) = (Inr h1 :: error + float dgl_graph)"
      "ndata h1 ''F_n'' = Some (floats F1)" "edata h1 ''F_e'' = Some (floats E1)"
      "mean0 F1 = Inr m1"
      "num_nodes (graphs ! 1) = num_nodes h1 + 1"
      "ndata (graphs ! 1) ''F_n'' = Some (floats (F1 @ [m1]))"
      "edge_list (graphs ! 1) = edge_list h1
                      @ zip [0..<num_nodes h1] (replicate (num_nodes h1) (num_nodes h1))
                      @ zip (replicate (num_nodes h1) (num_nodes h1)) [0..<num_nodes h1]"
      "edata (graphs ! 1) ''F_e''
                      = Some (floats E1 @ replicate (2 * num_nodes h1) (nan_mean0 512 E1))"
    unfolding g1[symmetric] by (auto simp: c0)
  from second0(1) have h1: "h1 = \<lparr>num_nodes = 2, edge_list = [],
          ndata = [''F_n'' \<mapsto> floats [[1, 2], [3, 4]]],
          edata = [''F_e'' \<mapsto> floats []], batch_num_nodes = [2],
          batch_num_edges = [0]\<rparr>" by simp
  from second0(2,3) have fl1: "floats F1 = floats [[1, 2], [3, 4]]" "floats E1 = floats []"
    unfolding h1 by simp_all
  have FE1: "F1 = [[1, 2], [3, 4]]" "E1 = []"
    by (rule inj[OF fl1(1)], rule inj[OF fl1(2)])
  from second0(4-8) m have second:
    "num_nodes (graphs ! 1) = 3 \<and>
     ndata (graphs ! 1) ''F_n'' = Some (floats [[1, 2], [3, 4], [2, 3]]) \<and>
     edge_list (graphs ! 1) = [(0, 2), (1, 2), (2, 0), (2, 1)] \<and>
     edata (graphs ! 1) ''F_e'' = Some (replicate 4 (replicate 512 NaN))"
    unfolding h1 FE1 by (simp add: up numeral_2_eq_2 r4 e floats_def)
  from each[rule_format, of 2] g2 have third:
    "num_nodes (graphs ! 2) = 100 \<and> number_of_edges (graphs ! 2) = 0 \<and>
     ndata (graphs ! 2) ''F_n'' = Some (floats (replicate 100 [1, 1]))"
    by (auto simp: c0 number_of_edges_def)
  from run first second third show ?thesis by blast
qed

lemma ebind_Inr_iff: "ebind m f = Inr y \<longleftrightarrow> (\<exists>x. m = Inr x \<and> f x = Inr y)"
  by (cases m) auto

lemma split_sections_length [simp]: "length (split_sections xs ns) = length ns"
  by (induction ns arbitrary: xs) auto

lemma split_sections_nth:
  "i < length ns \<Longrightarrow>
     split_sections xs ns ! i = take (ns ! i) (drop (sum_list (take i ns)) xs)"
proof (induction ns arbitrary: xs i)
  case Nil then show ?case by simp
next
  case (Cons n ns)
  show ?case
  proof (cases i)
    case 0 then show ?thesis by simp
  next
    case (Suc k)
    with Cons.prems have "k < length ns" by simp
    from Cons.IH[OF this, of "drop n xs"] Suc show ?thesis by (simp add: add.commute)
  qed
qed

lemma concat_split_sections: "concat (split_sections xs ns) = take (sum_list ns) xs"
proof (induction ns arbitrary: xs)
  case Nil then show ?case by simp
next
  case (Cons n ns)
  have "take n xs @ take (sum_list ns) (drop n xs) = take (n + sum_list ns) xs"
    by (simp add: take_add)
  with Cons show ?case by simp
qed

lemma sum_list_take_le: "i < length ns \<Longrightarrow> sum_list (take i ns) + ns ! i \<le> sum_list (ns :: nat list)"
proof (induction ns arbitrary: i)
  case Nil then show ?case by simp
next
  case (Cons n ns)
  then show ?case by (cases i) (auto simp: add.assoc)
qed

lemma split_sections_nth_length:
  assumes "sum_list ns = length xs" "i < length ns"
  shows "length (split_sections xs ns ! i) = ns ! i"
  using sum_list_take_le[OF assms(2)] assms by (simp add: split_sections_nth)

lemma foldr_max_eq_Max:
  "ns \<noteq> [] \<Longrightarrow> foldr max ns (0::nat) = Max (set ns)"
proof (induction ns)
  case Nil then show ?case by simp
next
  case (Cons n ns)
  show ?case
  proof (cases "ns = []")
    case True then show ?thesis by simp
  next
    case False
    with Cons have "foldr max ns 0 = Max (set ns)" by simp
    with False show ?thesis by simp
  qed
qed

lemma map_length_split_sections:
  assumes "sum_list ns = length xs"
  shows "map length (split_sections xs ns) = ns"
  by (rule nth_equalityI) (use assms in \<open>simp_all add: split_sections_nth_length\<close>)


lemma pad_sequence_split:
  assumes "sum_list ns = length F" "ns \<noteq> []"
  shows "pad_sequence (split_sections F ns) =
           Inr (map (\<lambda>s. s @ replicate (Max (set ns) - length s) (replicate (ncols F) 0))
                  (split_sections F ns))"
proof -
  have "split_sections F ns \<noteq> []" using assms(2) by (cases ns) auto
  then show ?thesis
    using assms by (simp add: pad_sequence_def Let_def map_length_split_sections
        foldr_max_eq_Max concat_split_sections)
qed

section \<open>Claim C4: a batched graph without edges passes its node features through\<close>

text \<open>
  C4. When the batched graph has no edge, \<^verbatim>\<open>ContextGAT.forward\<close>, called as the decoder
  calls it, with the node counts of the batch as the list \<open>batch_num_nodes\<close>, returns,
  whatever the layers, the message-passing engine and the query \<open>input_hidden\<close> are:
  for every sample \<open>i\<close> its own rows of the input node features \<open>F_n\<close> (the
  \<open>batch_num_nodes[i]\<close> rows after those of the samples before it), followed by zero
  rows up to the largest node count. The node counts must add up to the rows of \<open>F_n\<close>
  (else \<^verbatim>\<open>torch.split\<close> raises) and the batch must not be empty (else
  \<^verbatim>\<open>pad_sequence\<close> raises).
\<close>

theorem zero_edges_pass_through:
  assumes "number_of_edges graphs = 0"
      and "ndata graphs ''F_n'' = Some F_n"
      and "sum_list b_num_nodes = length F_n"
      and "b_num_nodes \<noteq> []"
  shows "\<exists>io msk.
           ContextGAT_forward G rsum input_hidden graphs (Some b_num_nodes) = Inr (io, msk) \<and>
           length io = length b_num_nodes \<and>
           (\<forall>i<length b_num_nodes.
              io ! i = take (b_num_nodes ! i) (drop (sum_list (take i b_num_nodes)) F_n)
                       @ replicate (Max (set b_num_nodes) - b_num_nodes ! i)
                           (replicate (ncols F_n) 0))"
proof -
  let ?io = "map (\<lambda>s. s @ replicate (Max (set b_num_nodes) - length s) (replicate (ncols F_n) 0))
                  (split_sections F_n b_num_nodes)"
  have run: "ContextGAT_forward G rsum input_hidden graphs (Some b_num_nodes)
               = Inr (?io, map (map (\<lambda>row. rsum row \<noteq> 0)) ?io)"
    using assms pad_sequence_split[OF assms(3,4)]
    by (simp add: ContextGAT_forward_def Let_def get_ndata_def torch_split_def)
  have "?io ! i = take (b_num_nodes ! i) (drop (sum_list (take i b_num_nodes)) F_n)
                       @ replicate (Max (set b_num_nodes) - b_num_nodes ! i)
                           (replicate (ncols F_n) 0)"
    if "i < length b_num_nodes" for i
    using that split_sections_nth_length[OF assms(3) that]
    by (simp add: split_sections_nth)
  with run show ?thesis by auto
qed

theorem zero_edges_pass_through_witness:
  "\<exists>msk.
     ContextGAT_forward
       \<lparr>use_obj_info = True, use_rel_info = True, k_update_steps = 1, update_relations = True,
        input_proj = (\<lambda>v. v), object_score = (\<lambda>v. [0]), update_all = (\<lambda>g. Inl DGLError)\<rparr>
       sum_list [[1], [1]]
       \<lparr>num_nodes = 3, edge_list = [], ndata = [''F_n'' \<mapsto> [[1, 2], [3, 4], [5, 6]]],
        edata = [''F_e'' \<mapsto> []], batch_num_nodes = [2, 1], batch_num_edges = [0, 0]\<rparr>
       (Some [2, 1])
     = Inr ([[[1, 2], [3, 4]], [[5, 6], [0, 0]]], msk)"
proof -
  let ?g = "\<lparr>num_nodes = 3, edge_list = [], ndata = [''F_n'' \<mapsto> [[1, 2], [3, 4], [5, 6::real]]],
        edata = [''F_e'' \<mapsto> ([] :: mat)], batch_num_nodes = [2, 1], batch_num_edges = [0, 0]\<rparr>"
  let ?G = "\<lparr>use_obj_info = True, use_rel_info = True, k_update_steps = 1, update_relations = True,
        input_proj = (\<lambda>v. v), object_score = (\<lambda>v. [0]), update_all = (\<lambda>g. Inl DGLError)\<rparr>"
  from zero_edges_pass_through[of ?g "[[1, 2], [3, 4], [5, 6]]" "[2, 1]" ?G sum_list "[[1], [1]]"]
  obtain io msk where run: "ContextGAT_forward ?G sum_list [[1], [1]] ?g (Some [2, 1]) = Inr (io, msk)"
    and len: "length io = length [2, 1::nat]"
    and each: "\<forall>i<length [2, 1::nat].
              io ! i = take ([2, 1] ! i) (drop (sum_list (take i [2, 1])) [[1, 2], [3, 4], [5, 6]])
                       @ replicate (Max (set [2, 1]) - [2, 1] ! i)
                           (replicate (ncols [[1, 2], [3, 4], [5, 6::real]]) 0)"
    by (auto simp: number_of_edges_def)
  from each[rule_format, of 0] each[rule_format, of 1]
  have "io ! 0 = [[1, 2], [3, 4]]" "io ! 1 = [[5, 6], [0, 0]]"
    by (simp_all add: numeral_2_eq_2)
  with len have "io = [[[1, 2], [3, 4]], [[5, 6], [0, 0]]]"
    by (intro nth_equalityI) (auto simp: less_Suc_eq)
  with run show ?thesis by auto
qed

text \<open>
  Called without the node counts, the layer hands \<^verbatim>\<open>torch.split\<close> the tensor
  \<^verbatim>\<open>graphs.batch_num_nodes()\<close>, which torch refuses unless the batch has one member.
\<close>

lemma default_node_counts_raise:
  assumes "number_of_edges graphs = 0" "ndata graphs ''F_n'' = Some F_n"
      and "length (batch_num_nodes graphs) \<noteq> 1"
  shows "ContextGAT_forward G rsum input_hidden graphs None = Inl TypeError"
  using assms by (simp add: ContextGAT_forward_def Let_def get_ndata_def torch_split_def)

section \<open>Claim C2: the mask returned by the graph attention layer\<close>





text \<open>
  That graph is what the decoder hands to the layer for one sample with one object of
  these features (and two relation slots, none masked in).
\<close>

lemma counterexample_graph_is_built:
  "ebind (create_batched_graphs_augmented (\<lambda>_. 0) [[[1, - 1]]] [[True]] [[[0], [0]]]
            [[False, False]] [[(0, 0), (0, 0)]] 1 0 0 0 0)
     (\<lambda>(g, obj, om). ebind (dgl_batch (take 1 g)) real_graph)
     = Inr \<lparr>num_nodes = 1, edge_list = [], ndata = [''F_n'' \<mapsto> [[1, - 1]]],
               edata = [''F_e'' \<mapsto> []], batch_num_nodes = [1], batch_num_edges = [0]\<rparr>"
  by (simp add: create_batched_graphs_augmented_def identical_body_def build_graph_def
      bool_index_def numpy_index_def set_ndata_def add_nodes_def DGLGraph_def add_edges_def
      set_edata_def number_of_edges_def count_true_def dgl_batch_def cat_feature_def
      real_graph_def real_feature_def reals_def)

lemma sequence_Inr:
  "(\<And>m. m \<in> set ms \<Longrightarrow> \<exists>x. m = Inr x) \<Longrightarrow>
     \<exists>xs. sequence ms = Inr xs \<and> length xs = length ms \<and> (\<forall>i<length ms. ms ! i = Inr (xs ! i))"
proof (induction ms)
  case Nil
  then show ?case by simp
next
  case (Cons m ms)
  from Cons.prems[of m] obtain x where x: "m = Inr x" by auto
  from Cons.IH Cons.prems obtain xs where
    xs: "sequence ms = Inr xs" "length xs = length ms" "\<forall>i<length ms. ms ! i = Inr (xs ! i)"
    by auto
  have "\<forall>i<length (m # ms). (m # ms) ! i = Inr ((x # xs) ! i)"
    using x xs(3) by (auto simp: nth_Cons split: nat.splits)
  with x xs show ?case by auto
qed

lemma sum_list_single:
  fixes xs :: "real list"
  shows "j < length xs \<Longrightarrow> (\<And>k. k < length xs \<Longrightarrow> k \<noteq> j \<Longrightarrow> xs ! k = 0) \<Longrightarrow> sum_list xs = xs ! j"
proof (induction xs arbitrary: j)
  case Nil
  then show ?case by simp
next
  case (Cons x xs)
  show ?case
  proof (cases j)
    case 0
    have "y = 0" if "y \<in> set xs" for y
    proof -
      from that obtain k where "k < length xs" "xs ! k = y" by (auto simp: in_set_conv_nth)
      with Cons.prems(2)[of "Suc k"] 0 show ?thesis by simp
    qed
    then have "sum_list xs = 0" by (induction xs) auto
    with 0 show ?thesis by simp
  next
    case (Suc j')
    have "x = 0" using Cons.prems(2)[of 0] Suc by simp
    moreover have "sum_list xs = xs ! j'"
    proof (rule Cons.IH)
      show "j' < length xs" using Cons.prems(1) Suc by simp
    next
      fix k assume "k < length xs" "k \<noteq> j'"
      with Cons.prems(2)[of "Suc k"] Suc show "xs ! k = 0" by simp
    qed
    ultimately show ?thesis using Suc by simp
  qed
qed

lemma softmax_single_valid:
  assumes "j < length s" "s ! j = Finite a" "\<And>k. k < length s \<Longrightarrow> k \<noteq> j \<Longrightarrow> s ! k = NegInf"
  shows "softmax s = Inr ((replicate (length s) 0)[j := 1])"
proof -
  have notall: "\<not> list_all (\<lambda>x. x = NegInf) s"
    using assms(1,2) by (auto simp: list_all_length)
  have "sum_list (map exp_score s) = map exp_score s ! j"
    by (rule sum_list_single) (use assms in auto)
  then have total: "sum_list (map exp_score s) = exp a" using assms(1,2) by simp
  have "map (\<lambda>x. exp_score x / exp a) s = (replicate (length s) 0)[j := 1]"
  proof (rule nth_equalityI)
    fix k assume "k < length (map (\<lambda>x. exp_score x / exp a) s)"
    then have k: "k < length s" by simp
    show "map (\<lambda>x. exp_score x / exp a) s ! k = (replicate (length s) 0)[j := 1] ! k"
      using k assms by (cases "k = j") auto
  qed simp
  with notall total show ?thesis by (simp add: softmax_def)
qed

lemma weighted_sum_single:
  assumes "j < length feats" "\<And>row. row \<in> set feats \<Longrightarrow> length row = ncols feats"
  shows "weighted_sum feats ((replicate (length feats) 0)[j := 1]) = feats ! j"
proof -
  let ?alpha = "(replicate (length feats) (0::real))[j := 1]"
  let ?scaled = "map (\<lambda>(row, a). map (\<lambda>v. v * a) row) (zip feats ?alpha)"
  from assms(1) obtain f fs where feats: "feats = f # fs" by (cases feats) auto
  have nc: "ncols ?scaled = ncols feats"
    by (simp add: feats ncols_def) (cases j; simp)
  have len: "length (feats ! j) = ncols feats" using assms by simp
  have entry: "sum_list (map (\<lambda>row. row ! d) ?scaled) = feats ! j ! d" if d: "d < ncols feats" for d
  proof -
    have "sum_list (map (\<lambda>row. row ! d) ?scaled) = map (\<lambda>row. row ! d) ?scaled ! j"
    proof (rule sum_list_single)
      show "j < length (map (\<lambda>row. row ! d) ?scaled)" using assms(1) by simp
    next
      fix k assume "k < length (map (\<lambda>row. row ! d) ?scaled)" "k \<noteq> j"
      then show "map (\<lambda>row. row ! d) ?scaled ! k = 0"
        using d assms(2)[of "feats ! k"] by simp
    qed
    also have "\<dots> = feats ! j ! d" using assms(1) d len by simp
    finally show ?thesis .
  qed
  show ?thesis
    unfolding weighted_sum_def sum0_def nc
    by (rule nth_equalityI) (use len entry in auto)
qed

section \<open>Claim C5: attention with a single valid key\<close>

lemma attention_scores_shape:
  assumes "length decoder_hidden = length image_feats"
  shows "map length (attention_scores A train u image_feats decoder_hidden) = map length image_feats"
  by (rule nth_equalityI) (use assms in \<open>simp_all add: attention_scores_def Let_def\<close>)

text \<open>
  C5. Let the attention module be called with a mask of the shape of the scores in
  which every sample with keys has a valid key, and let \<open>j\<close> be the only valid key
  position of sample \<open>i\<close>. Then the call returns, and its output for sample \<open>i\<close> is
  row \<open>j\<close> of that sample's key features as they were passed in, whatever the layers,
  the dropout draws and the query are: position \<open>j\<close> gets the weight
  \<open>exp a / exp a = 1\<close> and every masked-out position the weight \<open>0 / exp a = 0\<close>.
  (A sample with keys and no valid key has no softmax among the reals; the key rows of
  sample \<open>i\<close> have one width.)
\<close>

theorem single_valid_key_returns_that_key:
  assumes batch: "length decoder_hidden = length image_feats"
      and shape: "map length msk = map length image_feats"
      and valid: "\<And>row. row \<in> set msk \<Longrightarrow> row = [] \<or> True \<in> set row"
      and i: "i < length image_feats"
      and j: "j < length (msk ! i)" "msk ! i ! j"
      and only: "\<And>k. k < length (msk ! i) \<Longrightarrow> k \<noteq> j \<Longrightarrow> \<not> msk ! i ! k"
      and width: "\<And>row. row \<in> set (image_feats ! i) \<Longrightarrow> length row = ncols (image_feats ! i)"
  shows "\<exists>out. Attention_forward A train u image_feats decoder_hidden (Some msk) = Inr out \<and>
               length out = length image_feats \<and>
               out ! i = image_feats ! i ! j"
proof -
  let ?att = "attention_scores A train u image_feats decoder_hidden"
  let ?fill = "map (\<lambda>(row, mrow). map (\<lambda>(a, m). if m then Finite a else NegInf) (zip row mrow))
                  (zip ?att msk)"
  have sh: "map length ?att = map length image_feats" by (rule attention_scores_shape[OF batch])
  then have len_att: "length ?att = length image_feats" by (metis length_map)
  have len_msk: "length msk = length image_feats" using shape by (metis length_map)
  have row_len: "length (?att ! k) = length (msk ! k)" if "k < length image_feats" for k
  proof -
    have "map length ?att ! k = map length msk ! k" using sh shape by simp
    then show ?thesis using that len_att len_msk by simp
  qed
  have fill: "masked_fill ?att msk = Inr ?fill" using sh shape by (simp add: masked_fill_def)
  have ok: "\<exists>x. m = Inr x" if "m \<in> set (map softmax ?fill)" for m
  proof -
    from that obtain k where k: "k < length image_feats" and m: "m = softmax (?fill ! k)"
      using len_att len_msk by (auto simp: in_set_conv_nth)
    have fk: "?fill ! k = map (\<lambda>(a, m). if m then Finite a else NegInf) (zip (?att ! k) (msk ! k))"
      using k len_att len_msk by simp
    have "msk ! k \<in> set msk" using k len_msk by simp
    from valid[OF this] show ?thesis
    proof
      assume "msk ! k = []"
      then show ?thesis by (simp add: m fk softmax_def)
    next
      assume "True \<in> set (msk ! k)"
      then obtain n where n: "n < length (msk ! k)" "msk ! k ! n" by (auto simp: in_set_conv_nth)
      then have "(?fill ! k) ! n \<noteq> NegInf" using row_len[OF k] by (simp add: fk)
      moreover have "n < length (?fill ! k)" using n row_len[OF k] by (simp add: fk)
      ultimately have "\<not> list_all (\<lambda>x. x = NegInf) (?fill ! k)"
        by (auto simp: list_all_length)
      then show ?thesis by (simp add: m softmax_def)
    qed
  qed
  from sequence_Inr[of "map softmax ?fill", OF ok] obtain alpha where
    alpha: "sequence (map softmax ?fill) = Inr alpha" "length alpha = length image_feats"
           "\<forall>k<length image_feats. softmax (?fill ! k) = Inr (alpha ! k)"
    using len_att len_msk by auto
  have fi: "?fill ! i = map (\<lambda>(a, m). if m then Finite a else NegInf) (zip (?att ! i) (msk ! i))"
    using i len_att len_msk by simp
  have "softmax (?fill ! i) = Inr ((replicate (length (?fill ! i)) 0)[j := 1])"
  proof (rule softmax_single_valid)
    show "j < length (?fill ! i)" using j row_len[OF i] by (simp add: fi)
    show "(?fill ! i) ! j = Finite (?att ! i ! j)" using j row_len[OF i] by (simp add: fi)
    fix k assume "k < length (?fill ! i)" "k \<noteq> j"
    then show "(?fill ! i) ! k = NegInf" using only[of k] row_len[OF i] by (simp add: fi)
  qed
  moreover have "length (?fill ! i) = length (image_feats ! i)"
  proof -
    have "map length msk ! i = map length image_feats ! i" using shape by simp
    then show ?thesis using i len_msk row_len[OF i] by (simp add: fi)
  qed
  ultimately have ai: "alpha ! i = (replicate (length (image_feats ! i)) 0)[j := 1]"
    using alpha(3) i by auto
  have jf: "j < length (image_feats ! i)"
  proof -
    have "map length msk ! i = map length image_feats ! i" using shape by simp
    then show ?thesis using i len_msk j by simp
  qed
  have "weighted_sum (image_feats ! i) (alpha ! i) = image_feats ! i ! j"
    unfolding ai by (rule weighted_sum_single[OF jf width])
  then show ?thesis
    using batch fill alpha i by (simp add: Attention_forward_def)
qed

theorem single_valid_key_returns_that_key_witness:
  "\<exists>out. Attention_forward
            \<lparr>features_att = (\<lambda>v. v), decoder_att = (\<lambda>v. [0, 0]), full_att = sum_list,
             att_dropout = 1 / 2\<rparr>
            True (\<lambda>_. 1) [[[1, 2], [3, 4]], [[5, 6], [7, 8]]] [[0], [0]]
            (Some [[False, True], [True, True]]) = Inr out \<and>
         length out = 2 \<and> out ! 0 = [3, 4]"
proof -
  let ?F = "[[[1, 2], [3, 4]], [[5, 6], [7, 8]]] :: mat list"
  let ?M = "[[False, True], [True, True]]"
  have only: "\<not> ?M ! 0 ! k" if "k < length (?M ! 0)" "k \<noteq> 1" for k
    using that by (cases k) auto
  have width: "length row = ncols (?F ! 0)" if "row \<in> set (?F ! 0)" for row
    using that by (auto simp: ncols_def)
  have valid: "row = [] \<or> True \<in> set row" if "row \<in> set ?M" for row
    using that by auto
  from single_valid_key_returns_that_key[of "[[0], [0]]" ?F ?M 0 1
      "\<lparr>features_att = (\<lambda>v. v), decoder_att = (\<lambda>v. [0, 0]), full_att = sum_list,
             att_dropout = 1 / 2\<rparr>" True "\<lambda>_. 1", OF _ _ valid _ _ _ only width]
  show ?thesis by (simp add: numeral_2_eq_2)
qed

section \<open>Claim C3: decode lengths, active batch size and untouched rows\<close>

lemma batch_size_t_filter:
  "batch_size_t dl t = length (filter (\<lambda>l. int t < l) dl)"
  unfolding batch_size_t_def by (induction dl) auto



lemma batch_size_t_le: "batch_size_t dl t \<le> length dl"
  by (simp add: batch_size_t_filter)




lemma write_timestep_length [simp]: "length (write_timestep P n t preds) = length P"
  by (simp add: write_timestep_def)

lemma write_timestep_nth:
  "i < length P \<Longrightarrow>
     write_timestep P n t preds ! i = (if i < n then (P ! i)[t := preds ! i] else P ! i)"
  by (simp add: write_timestep_def nth_enumerate_eq)

lemma write_timestep_other:
  "i < length P \<Longrightarrow> t' \<noteq> t \<or> n \<le> i \<Longrightarrow> write_timestep P n t preds ! i ! t' = P ! i ! t'"
  by (auto simp: write_timestep_nth)

lemma write_timestep_row_length:
  "i < length P \<Longrightarrow> length (write_timestep P n t preds ! i) = length (P ! i)"
  by (simp add: write_timestep_nth)









lemma init_graphs_Inr:
  assumes "init_graphs D u C0 = Inr C"
  shows "caption_lengths_sorted C = caption_lengths_sorted C0" "sort_ind C = sort_ind C0"
  using assms unfolding init_graphs_def
  by (auto simp: ebind_Inr_iff split: prod.splits)






section \<open>The example, evaluated\<close>

lemma upt2: "[0..<2] = [0, Suc 0]" by (simp add: upt_rec)

lemma example_sort_batch:
  "sort_batch example_inputs =
     Inr \<lparr>caption_lengths_sorted = [3, 2], sort_ind = [1, 0], image_features_sorted = [[[1]], [[1]]],
          object_features_sorted = [[[1]], [[1]]], object_mask_sorted = [[True], [True]],
          relation_features_sorted = [[[1], [1]], [[1], [1]]],
          relation_mask_sorted = [[False, False], [False, False]],
          pair_ids_sorted = [[(0, 0), (0, 0)], [(0, 0), (0, 0)]], image_features_mean = [[1], [1]],
          graph_features_mean = [[3], [3]], g_graphs = []\<rparr>"
  by (simp add: sort_batch_def example_inputs_def mean0_def sum0_def ncols_def graph_mean_def
      count_true_def sort_descending_def index_select_def Let_def upt2)

lemma example_init_graphs:
  "init_graphs (example_decoder tf) u
     \<lparr>caption_lengths_sorted = [3, 2], sort_ind = [1, 0], image_features_sorted = [[[1]], [[1]]],
          object_features_sorted = [[[1]], [[1]]], object_mask_sorted = [[True], [True]],
          relation_features_sorted = [[[1], [1]], [[1], [1]]],
          relation_mask_sorted = [[False, False], [False, False]],
          pair_ids_sorted = [[(0, 0), (0, 0)], [(0, 0), (0, 0)]], image_features_mean = [[1], [1]],
          graph_features_mean = [[3], [3]], g_graphs = []\<rparr> = Inr example_ctx"
  by (simp add: init_graphs_def example_decoder_def create_batched_graphs_augmented_def
      identical_body_def build_graph_def bool_index_def numpy_index_def set_ndata_def
      add_nodes_def DGLGraph_def add_edges_def set_edata_def number_of_edges_def count_true_def
      example_ctx_def example_graph_def upt2)

lemma example_attention1:
  "Attention_forward example_attention False u [[[1]], [[1]]] [[1], [1]] (Some [[True], [True]])
     = Inr [[1], [1]]"
  by (simp add: Attention_forward_def attention_scores_def example_attention_def nn_Dropout_def
      relu_def masked_fill_def softmax_def weighted_sum_def sum0_def ncols_def upt2 Let_def)

lemmas eval_defs =
  cascade_step_def example_ctx_def example_graph_def example_decoder_def example_gat_def
  example_attention_def dgl_batch_def cat_feature_def cat1_def lstm_rows_def
  real_graph_def real_feature_def reals_def
  ContextGAT_forward_def number_of_edges_def get_ndata_def torch_split_def pad_sequence_def
  ncols_def reconcile_def assign_prefix_def Attention_forward_def attention_scores_def
  nn_Dropout_def relu_def masked_fill_def softmax_def weighted_sum_def sum0_def
  dropout_rows_def write_timestep_def Let_def upt2

lemma example_step0:
  "cascade_step (example_decoder tf) u example_ctx 0 2 [[1], [1]]
     \<lparr>h1 = [[0], [0]], c1 = [[0], [0]], h2 = [[0], [0]], c2 = [[0], [0]],
      predictions = [[[0, 0], [0, 0]], [[0, 0], [0, 0]]],
      predictions1 = [[[0, 0], [0, 0]], [[0, 0], [0, 0]]]\<rparr>
   = Inr (\<lparr>h1 = [[1], [1]], c1 = [[1], [1]], h2 = [[1], [1]], c2 = [[1], [1]],
      predictions = [[[1, 2], [0, 0]], [[1, 2], [0, 0]]],
      predictions1 = [[[3, 4], [0, 0]], [[3, 4], [0, 0]]]\<rparr>, [[1, 2], [1, 2]])"
  by (simp add: eval_defs)

lemma example_step1:
  "cascade_step (example_decoder tf) u example_ctx (Suc 0) (Suc 0) [emb]
     \<lparr>h1 = [[1], [1]], c1 = [[1], [1]], h2 = [[1], [1]], c2 = [[1], [1]],
      predictions = [[[1, 2], [0, 0]], [[1, 2], [0, 0]]],
      predictions1 = [[[3, 4], [0, 0]], [[3, 4], [0, 0]]]\<rparr>
   = Inr (\<lparr>h1 = [[1]], c1 = [[1]], h2 = [[1]], c2 = [[1]],
      predictions = [[[1, 2], [1, 2]], [[1, 2], [0, 0]]],
      predictions1 = [[[3, 4], [3, 4]], [[3, 4], [0, 0]]]\<rparr>, [[1, 2]])"
  by (simp add: eval_defs)

lemma example_zeros:
  "torch_zeros 2 2 2 = Inr [[[0, 0], [0, 0]], [[0, 0], [0, 0]]]"
  by (simp add: torch_zeros_def numeral_2_eq_2)

lemma example_init_state:
  "init_state (example_decoder tf) 2 zeros =
     \<lparr>h1 = [[0], [0]], c1 = [[0], [0]], h2 = [[0], [0]], c2 = [[0], [0]],
      predictions = zeros, predictions1 = zeros\<rparr>"
  by (simp add: init_state_def init_hidden_state_def example_decoder_def numeral_2_eq_2)

lemma example_batch_sizes: "batch_size_t [2, 1] 0 = 2" "batch_size_t [2, 1] (Suc 0) = 1"
  by (simp_all add: batch_size_t_def)

lemma example_teacher_forcing:
  "forward_with_teacher_forcing (example_decoder True) u example_inputs =
     Inr ([[[1, 2], [1, 2]], [[1, 2], [0, 0]]], [[[3, 4], [3, 4]], [[3, 4], [0, 0]]],
          [[1, 3, 2], [1, 2, 0]], [2, 1], [1, 0])"
proof -
  have sel: "index_select (encoded_captions example_inputs) [1, 0] = Inr [[1, 3, 2], [1, 2, 0]]"
    by (simp add: index_select_def example_inputs_def)
  have len: "length (image_features example_inputs) = 2" by (simp add: example_inputs_def)
  have emb: "embedding (example_decoder True) = (\<lambda>tok. [real tok])"
            "vocab_size (example_decoder True) = 2"
    by (simp_all add: example_decoder_def)
  have ctx: "caption_lengths_sorted example_ctx = [3, 2]" "sort_ind example_ctx = [1, 0]"
    by (simp_all add: example_ctx_def)
  show ?thesis
    by (simp add: forward_with_teacher_forcing_def example_sort_batch sel[unfolded One_nat_def]
        example_init_graphs[unfolded One_nat_def] len emb ctx[unfolded One_nat_def] py_max_def
        example_zeros example_init_state upt2 Let_def example_batch_sizes select_timestep_def
        example_step0 example_step1)
qed

lemma example_no_teacher_force:
  "forward_no_teacher_force (example_decoder False) u example_inputs =
     Inr ([[[1, 2], [1, 2]], [[1, 2], [0, 0]]], [[[3, 4], [3, 4]], [[3, 4], [0, 0]]],
          [[1, 2, 0], [1, 3, 2]], [2, 1], [1, 0])"
proof -
  have am: "argmax [1, 2] = Inr (Suc 0)" by (simp add: argmax_def upt2)
  have len: "length (image_features example_inputs) = 2"
    and caps: "encoded_captions example_inputs = [[1, 2, 0], [1, 3, 2]]"
    by (simp_all add: example_inputs_def)
  have emb: "embedding (example_decoder False) = (\<lambda>tok. [real tok])"
            "vocab_size (example_decoder False) = 2"
    by (simp_all add: example_decoder_def)
  have prev: "k_prev_words (example_decoder False) 2 = Inr [[1], [1]]"
    by (simp add: k_prev_words_def example_decoder_def numeral_2_eq_2)
  have ctx: "caption_lengths_sorted example_ctx = [3, 2]" "sort_ind example_ctx = [1, 0]"
    by (simp_all add: example_ctx_def)
  show ?thesis
    by (simp add: forward_no_teacher_force_def example_sort_batch
        example_init_graphs[unfolded One_nat_def] len emb ctx[unfolded One_nat_def]
        prev[unfolded One_nat_def] caps py_max_def example_zeros example_init_state upt2 Let_def
        example_batch_sizes example_step0 example_step1 am)
qed

lemma example_forward_tf:
  "forward (example_decoder True) u example_inputs =
     Inr ([[[1, 2], [1, 2]], [[1, 2], [0, 0]]], [[[3, 4], [3, 4]], [[3, 4], [0, 0]]],
          [[1, 3, 2], [1, 2, 0]], [2, 1], [1, 0])"
  by (simp add: forward_def example_teacher_forcing) (simp add: example_decoder_def)


section \<open>Claim C1: the captions returned by the two decode paths\<close>

lemma teacher_forcing_returns_sorted_captions:
  assumes "forward_with_teacher_forcing D u X = Inr (P, P1, caps, dl, ind)"
  shows "index_select (encoded_captions X) ind = Inr caps"
proof -
  from assms obtain C0 C where
    sb: "sort_batch X = Inr C0" and sel: "index_select (encoded_captions X) (sort_ind C0) = Inr caps"
    and ig: "init_graphs D (\<lambda>p. u (0 # p)) C0 = Inr C" and ind: "ind = sort_ind C"
    unfolding forward_with_teacher_forcing_def Let_def by (auto simp: ebind_Inr_iff)
  with init_graphs_Inr[OF ig] show ?thesis by simp
qed

lemma no_teacher_force_returns_input_captions:
  assumes "forward_no_teacher_force D u X = Inr (P, P1, caps, dl, ind)"
  shows "caps = encoded_captions X"
  using assms unfolding forward_no_teacher_force_def Let_def by (auto simp: ebind_Inr_iff)

text \<open>
  C1 holds of one decode path only. Whenever \<^verbatim>\<open>forward\<close> returns on the teacher-forced
  path, the third element of the tuple is the encoded captions reordered by the
  returned permutation \<open>sort_ind\<close>; whenever it returns on the free-running path, the
  third element is the encoded captions as they were passed in, in input order:
  \<^verbatim>\<open>_forward_no_teacher_force\<close> has no line
  \<^verbatim>\<open>encoded_captions = encoded_captions[sort_ind]\<close>.
\<close>

theorem returned_captions_of_the_decode_paths:
  assumes "forward D u X = Inr (P, P1, caps, dl, ind)"
  shows "(teacher_force D \<longrightarrow> index_select (encoded_captions X) ind = Inr caps) \<and>
         (\<not> teacher_force D \<longrightarrow> caps = encoded_captions X)"
  using assms teacher_forcing_returns_sorted_captions[of D u X P P1 caps dl ind]
        no_teacher_force_returns_input_captions[of D u X P P1 caps dl ind]
  by (simp add: forward_def split: if_splits)

lemma example_forward_ntf:
  "forward (example_decoder False) u example_inputs =
     Inr ([[[1, 2], [1, 2]], [[1, 2], [0, 0]]], [[[3, 4], [3, 4]], [[3, 4], [0, 0]]],
          [[1, 2, 0], [1, 3, 2]], [2, 1], [1, 0])"
  by (simp add: forward_def example_no_teacher_force) (simp add: example_decoder_def)

text \<open>
  On the example, whose caption lengths \<open>[2, 3]\<close> are sorted by the permutation
  \<open>[1, 0]\<close>, the free-running path returns the captions \<open>[[1, 2, 0], [1, 3, 2]]\<close> in input
  order, where reordering them by \<open>[1, 0]\<close> gives \<open>[[1, 3, 2], [1, 2, 0]]\<close>, which is what
  the teacher-forced path returns. All other components agree.
\<close>

theorem free_running_returns_unsorted_captions:
  "forward (example_decoder False) (\<lambda>_. 0) example_inputs =
     Inr ([[[1, 2], [1, 2]], [[1, 2], [0, 0]]], [[[3, 4], [3, 4]], [[3, 4], [0, 0]]],
          [[1, 2, 0], [1, 3, 2]], [2, 1], [1, 0]) \<and>
   [[1, 2, 0], [1, 3, 2]] = encoded_captions example_inputs \<and>
   index_select (encoded_captions example_inputs) [1, 0] = Inr [[1, 3, 2], [1, 2, 0]] \<and>
   forward (example_decoder True) (\<lambda>_. 0) example_inputs =
     Inr ([[[1, 2], [1, 2]], [[1, 2], [0, 0]]], [[[3, 4], [3, 4]], [[3, 4], [0, 0]]],
          [[1, 3, 2], [1, 2, 0]], [2, 1], [1, 0])"
proof -
  have tf: "teacher_force (example_decoder True)" "\<not> teacher_force (example_decoder False)"
    by (simp_all add: example_decoder_def)
  from returned_captions_of_the_decode_paths[OF example_forward_ntf[of "\<lambda>_. 0"]] tf
  have "[[1, 2, 0], [1, 3, 2]] = encoded_captions example_inputs" by simp
  moreover
  from returned_captions_of_the_decode_paths[OF example_forward_tf[of "\<lambda>_. 0"]] tf
  have "index_select (encoded_captions example_inputs) [1, 0] = Inr [[1, 3, 2], [1, 2, 0]]" by simp
  ultimately show ?thesis
    using example_forward_ntf[of "\<lambda>_. 0"] example_forward_tf[of "\<lambda>_. 0"] by simp
qed

section \<open>Claim C10: evaluation mode ignores the augmentation settings\<close>

lemma cascade_step_settings:
  "cascade_step (D\<lparr>augmentation := a, edge_drop_prob := pe, node_drop_prob := pn,
                    attr_drop_prob := pa\<rparr>) u C t n emb st
     = cascade_step D u C t n emb st"
  by (simp add: cascade_step_def)

lemma attention_scores_eval:
  "attention_scores A False u' F H = attention_scores A False u F H"
  by (simp add: attention_scores_def nn_Dropout_def)

lemma Attention_forward_eval:
  "\<not> train \<Longrightarrow> Attention_forward A train u' F H m = Attention_forward A train u F H m"
  by (cases m) (simp_all add: Attention_forward_def attention_scores_eval[of A u' F H u])

lemma dropout_rows_eval:
  "\<not> train \<Longrightarrow> dropout_rows train p u' x = dropout_rows train p u x"
  by (simp add: dropout_rows_def nn_Dropout_def)

lemma cascade_step_eval:
  assumes "\<not> training D"
  shows "cascade_step D u' C t n emb st = cascade_step D u C t n emb st"
proof -
  have a1: "Attention_forward A (training D) (\<lambda>p. u' (0 # t # p)) F H m
              = Attention_forward A (training D) (\<lambda>p. u (0 # t # p)) F H m" for A F H m
    by (rule Attention_forward_eval[OF assms])
  have a2: "Attention_forward A (training D) (\<lambda>p. u' (1 # t # p)) F H m
              = Attention_forward A (training D) (\<lambda>p. u (1 # t # p)) F H m" for A F H m
    by (rule Attention_forward_eval[OF assms])
  have d1: "dropout_rows (training D) p (\<lambda>p. u' (2 # t # p)) x
              = dropout_rows (training D) p (\<lambda>p. u (2 # t # p)) x" for p x
    by (rule dropout_rows_eval[OF assms])
  have d2: "dropout_rows (training D) p (\<lambda>p. u' (3 # t # p)) x
              = dropout_rows (training D) p (\<lambda>p. u (3 # t # p)) x" for p x
    by (rule dropout_rows_eval[OF assms])
  show ?thesis unfolding cascade_step_def a1 a2 d1 d2 ..
qed

lemma teacher_forcing_loop_settings:
  "\<not> training D \<Longrightarrow>
     teacher_forcing_loop (D\<lparr>augmentation := a, edge_drop_prob := pe, node_drop_prob := pn,
                              attr_drop_prob := pa\<rparr>) u' C dl embeddings ts st
       = teacher_forcing_loop D u C dl embeddings ts st"
  by (induction ts arbitrary: st)
     (simp_all add: cascade_step_settings cascade_step_eval[of D u' _ _ _ _ _ u]
        split: sum.splits prod.splits)

lemma no_teacher_force_loop_settings:
  "\<not> training D \<Longrightarrow>
     no_teacher_force_loop (D\<lparr>augmentation := a, edge_drop_prob := pe, node_drop_prob := pn,
                               attr_drop_prob := pa\<rparr>) u' C dl embeddings ts st
       = no_teacher_force_loop D u C dl embeddings ts st"
  by (induction ts arbitrary: st embeddings)
     (simp_all add: cascade_step_settings cascade_step_eval[of D u' _ _ _ _ _ u]
        split: sum.splits prod.splits)

lemma identity_graphs_ignore_settings:
  "create_batched_graphs_augmented u' ob om r rm pairs beam_size 0 pe' pn' pa'
     = create_batched_graphs_augmented u ob om r rm pairs beam_size 0 pe pn pa"
  by (simp add: create_batched_graphs_augmented_def)

lemma init_graphs_eval:
  "\<not> training D \<Longrightarrow>
     init_graphs D u C =
       ebind (create_batched_graphs_augmented u (object_features_sorted C) (object_mask_sorted C)
                (relation_features_sorted C) (relation_mask_sorted C) (pair_ids_sorted C) 1 0
                (edge_drop_prob D) (node_drop_prob D) (attr_drop_prob D))
         (\<lambda>(g, obj, om).
            Inr (C\<lparr>g_graphs := g, object_features_sorted := obj, object_mask_sorted := om\<rparr>))"
  by (simp add: init_graphs_def)

lemma init_graphs_settings:
  "\<not> training D \<Longrightarrow>
     init_graphs (D\<lparr>augmentation := a, edge_drop_prob := pe, node_drop_prob := pn,
                     attr_drop_prob := pa\<rparr>) u' C = init_graphs D u C"
  by (simp add: init_graphs_def
      identity_graphs_ignore_settings[of u' _ _ _ _ _ _ pe pn pa u "edge_drop_prob D"
        "node_drop_prob D" "attr_drop_prob D"])

lemma init_state_settings:
  "init_state (D\<lparr>augmentation := a, edge_drop_prob := pe, node_drop_prob := pn,
                   attr_drop_prob := pa\<rparr>) b zeros = init_state D b zeros"
  by (simp add: init_state_def init_hidden_state_def)

text \<open>
  C10. When the module is in evaluation mode, the graphs are built by the call with
  augmentation code 0, and \<^verbatim>\<open>forward\<close> (on either decode path) gives the same result,
  or the same error, for any other values of \<open>augmentation\<close>, \<open>edge_drop_prob\<close>,
  \<open>node_drop_prob\<close> and \<open>attr_drop_prob\<close>. The result does not depend on the random draws
  either: in evaluation mode none is used.
\<close>

theorem eval_mode_ignores_augmentation_settings:
  assumes "\<not> training D"
  shows "init_graphs D u C =
           ebind (create_batched_graphs_augmented u (object_features_sorted C)
                    (object_mask_sorted C) (relation_features_sorted C) (relation_mask_sorted C)
                    (pair_ids_sorted C) 1 0 (edge_drop_prob D) (node_drop_prob D)
                    (attr_drop_prob D))
             (\<lambda>(g, obj, om).
                Inr (C\<lparr>g_graphs := g, object_features_sorted := obj,
                       object_mask_sorted := om\<rparr>)) \<and>
         forward (D\<lparr>augmentation := a, edge_drop_prob := pe, node_drop_prob := pn,
                    attr_drop_prob := pa\<rparr>) u' X
           = forward D u X"
proof -
  let ?D = "D\<lparr>augmentation := a, edge_drop_prob := pe, node_drop_prob := pn,
              attr_drop_prob := pa\<rparr>"
  have tf: "forward_with_teacher_forcing ?D u' X = forward_with_teacher_forcing D u X"
    unfolding forward_with_teacher_forcing_def Let_def
    by (simp add: init_graphs_settings[OF assms, of _ _ _ _ "\<lambda>p. u' (0 # p)" _ "\<lambda>p. u (0 # p)"]
        teacher_forcing_loop_settings[OF assms, of _ _ _ _ "\<lambda>p. u' (Suc 0 # p)" _ _ _ _ _
          "\<lambda>p. u (Suc 0 # p)"] init_state_settings)
  have ntf: "forward_no_teacher_force ?D u' X = forward_no_teacher_force D u X"
    unfolding forward_no_teacher_force_def Let_def
    by (simp add: init_graphs_settings[OF assms, of _ _ _ _ "\<lambda>p. u' (0 # p)" _ "\<lambda>p. u (0 # p)"]
        no_teacher_force_loop_settings[OF assms, of _ _ _ _ "\<lambda>p. u' (Suc 0 # p)" _ _ _ _ _
          "\<lambda>p. u (Suc 0 # p)"] k_prev_words_def init_state_settings)
  show ?thesis using tf ntf init_graphs_eval[OF assms] by (simp add: forward_def)
qed

theorem eval_mode_ignores_augmentation_settings_witness:
  "\<not> training (example_decoder False) \<and>
   forward ((example_decoder False)\<lparr>augmentation := 3, edge_drop_prob := 9 / 10,
              node_drop_prob := 9 / 10, attr_drop_prob := 9 / 10\<rparr>) (\<lambda>_. 1) example_inputs
     = forward (example_decoder False) (\<lambda>_. 0) example_inputs \<and>
   forward (example_decoder False) (\<lambda>_. 0) example_inputs =
     Inr ([[[1, 2], [1, 2]], [[1, 2], [0, 0]]], [[[3, 4], [3, 4]], [[3, 4], [0, 0]]],
          [[1, 2, 0], [1, 3, 2]], [2, 1], [1, 0])"
proof -
  have ev: "\<not> training (example_decoder False)" by (simp add: example_decoder_def)
  from eval_mode_ignores_augmentation_settings[OF ev, where a = 3 and pe = "9 / 10"
         and pn = "9 / 10" and pa = "9 / 10" and u' = "\<lambda>_. 1" and u = "\<lambda>_. 0"
         and X = example_inputs and C = example_ctx]
  show ?thesis using ev example_forward_ntf[of "\<lambda>_. 0"] by simp
qed

section \<open>Claim C8: scheduled sampling never samples\<close>







end
